theory Spec2Isabelle
  imports Main "HOL-Library.Sublist"
begin

section \<open>The CircleCI configuration generator (generate-config.js)\<close>

text \<open>
  The script lists the sub-folders of \<^verbatim>\<open>base/\<close>, \<^verbatim>\<open>browsers/\<close> and \<^verbatim>\<open>included/\<close>,
  turns each folder into one job of the matching workflow and writes the text to
  \<^verbatim>\<open>circle.yml\<close>. Strings are modelled as lists of bytes (the UTF-8 text that
  \<^verbatim>\<open>fs.writeFileSync(..., 'utf8')\<close> stores); a thrown JavaScript exception is the
  \<open>Inl\<close> branch of a sum.
\<close>

subsection \<open>Data\<close>

text \<open>The object returned by \<^verbatim>\<open>splitImageFolderName\<close>: \<^verbatim>\<open>{ name, tag }\<close>.\<close>

record imageAndTag =
  name :: string
  tag :: string

text \<open>
  The exceptions the script can end with: \<^verbatim>\<open>new Error(message)\<close> thrown by
  \<^verbatim>\<open>formBrowserWorkflow\<close>, the \<^verbatim>\<open>TypeError\<close> of the semver package for a
  version it cannot parse, and a failure of \<^verbatim>\<open>fs.writeFileSync\<close>.
\<close>

datatype error = Error string | TypeError string | SystemError string

text \<open>\<^verbatim>\<open>os.EOL\<close>: the line terminator of the platform the script runs on.\<close>

datatype platform = Posix | Windows

fun EOL :: "platform \<Rightarrow> string" where
  "EOL Posix = ''\<newline>''"
| "EOL Windows = [CHR 0x0D, CHR 0x0A]"

subsection \<open>Base images\<close>

definition base_skipImages :: "string list" where
  "base_skipImages =
    [''6'', ''8'', ''8.0.0'', ''8.15.1'', ''8.16.0'', ''8.2.1'', ''8.9.3'',
     ''8.9.3-npm-6.10.1'', ''10'', ''10.0.0'', ''10.11.0'', ''10.15.3'', ''10.16.0'',
     ''10.16.3'', ''10.18.0'', ''10.18.1'', ''10.2.1'', ''11.13.0'', ''12.0.0'',
     ''12.1.0'', ''12.12.0'', ''12.13.0'', ''12.14.0'', ''12.14.1'', ''12.16.0'',
     ''12.16.1'', ''12.16.2'', ''12.18.0'', ''12.18.2'', ''12.4.0'', ''12.6.0'',
     ''12.8.1'', ''13.1.0'', ''13.3.0'', ''13.6.0'', ''13.8.0'', ''14.0.0'',
     ''centos7'', ''centos7-12.4.0'', ''ubuntu16'', ''ubuntu16-12.13.1'', ''ubuntu16-8'',
     ''ubuntu18-node12.14.1'', ''ubuntu19-node12.14.1'']"

definition base_isSkipped :: "string \<Rightarrow> bool" where
  "base_isSkipped t = (t \<in> set base_skipImages)"

definition base_isIncluded :: "imageAndTag \<Rightarrow> bool" where
  "base_isIncluded i = (\<not> base_isSkipped (tag i))"

text \<open>The callback of \<^verbatim>\<open>map\<close> in \<^verbatim>\<open>formBaseWorkflow\<close>: the job of one image.\<close>

definition baseJob :: "imageAndTag \<Rightarrow> string" where
  \<open>baseJob i =
    (let job = ''      - build-base-image:\<newline>'' @
               ''          name: "base '' @ tag i @ ''"\<newline>'' @
               ''          dockerTag: "'' @ tag i @ ''"\<newline>''
     in if tag i = ''12.0.0-libgbm'' \<or> tag i = ''manjaro-14.12.0''
        then job @ ''          checkNodeVersion: false\<newline>''
        else job)\<close>

text \<open>The array \<^verbatim>\<open>yml\<close> of \<^verbatim>\<open>formBaseWorkflow\<close>.\<close>

definition baseYml :: "imageAndTag list \<Rightarrow> string list" where
  "baseYml baseImages = map baseJob (filter base_isIncluded baseImages)"

definition base_workflowName :: string where
  "base_workflowName = ''  build-base-images:\<newline>'' @ ''    jobs:\<newline>''"

definition formBaseWorkflow :: "imageAndTag list \<Rightarrow> string" where
  "formBaseWorkflow baseImages = base_workflowName @ concat (baseYml baseImages)"

subsection \<open>Browser images\<close>

definition fullChromeVersion :: "string \<Rightarrow> string" where
  "fullChromeVersion version = ''Google Chrome '' @ version"

definition fullFirefoxVersion :: "string \<Rightarrow> string" where
  "fullFirefoxVersion version = ''Mozilla Firefox '' @ version"

definition fullEdgeVersion :: "string \<Rightarrow> string" where
  "fullEdgeVersion version = ''Microsoft Edge '' @ version"

text \<open>\<^verbatim>\<open>\d\<close> of a JavaScript regular expression without the unicode flag: 0 to 9.\<close>

definition isDigit :: "char \<Rightarrow> bool" where
  "isDigit c = (c \<in> set ''0123456789'')"

text \<open>
  \<^verbatim>\<open>/lit(\d+)/.exec(s)\<close> for a literal text \<open>lit\<close>: the search tries every start
  position from the left; at the first one where \<open>lit\<close> is followed by a digit the
  match succeeds and group 1 is the longest run of digits there. \<open>None\<close> is the
  \<^verbatim>\<open>null\<close> of a failed search, \<open>Some ds\<close> is \<^verbatim>\<open>matches[1]\<close>.
\<close>

fun execDigits :: "string \<Rightarrow> string \<Rightarrow> string option" where
  "execDigits lit [] = None"
| "execDigits lit (c # cs) =
    (let ds = takeWhile isDigit (drop (length lit) (c # cs))
     in if prefix lit (c # cs) \<and> ds \<noteq> [] then Some ds else execDigits lit cs)"

text \<open>
  Truthiness of a value that is a string or \<^verbatim>\<open>null\<close>, and \<^verbatim>\<open>a || b\<close> on
  such values.
\<close>

fun truthy :: "string option \<Rightarrow> bool" where
  "truthy None = False"
| "truthy (Some s) = (s \<noteq> [])"

definition js_or :: "string option \<Rightarrow> string option \<Rightarrow> string option" where
  "js_or a b = (if truthy a then a else b)"

definition findChromeVersion :: "string \<Rightarrow> string option" where
  "findChromeVersion t =
    (case execDigits ''chrome'' t of
       Some m \<Rightarrow> if truthy (Some m) then Some (fullChromeVersion m) else None
     | None \<Rightarrow> None)"

definition findFirefoxVersion :: "string \<Rightarrow> string option" where
  "findFirefoxVersion t =
    (case execDigits ''-ff'' t of
       Some m \<Rightarrow> if truthy (Some m) then Some (fullFirefoxVersion m) else None
     | None \<Rightarrow> None)"

definition findEdgeVersion :: "string \<Rightarrow> string option" where
  "findEdgeVersion t =
    (case execDigits ''-edge'' t of
       Some m \<Rightarrow> if truthy (Some m) then Some (fullEdgeVersion m) else None
     | None \<Rightarrow> None)"

definition browser_skipImages :: "string list" where
  "browser_skipImages =
    [''chrome63-ff57'', ''chrome65-ff57'', ''chrome67'', ''chrome67-ff57'', ''chrome69'',
     ''node8.15.1-chrome73'', ''node8.2.1-chrome73'', ''node8.9.3-chrome73'',
     ''node8.9.3-npm6.10.1-chrome75'', ''node8.9.3-npm6.10.1-chrome76-ff68'',
     ''node10.11.0-chrome75'', ''node10.16.0-chrome76'', ''node10.16.0-chrome77'',
     ''node10.16.0-chrome77-ff71'', ''node10.16.3-chrome80-ff73'', ''node10.2.1-chrome74'',
     ''node11.13.0-chrome73'', ''node12.0.0-chrome73'', ''node12.0.0-chrome73-ff68'',
     ''node12.0.0-chrome75'', ''node12.13.0-chrome78-ff70'',
     ''node12.13.0-chrome78-ff70-brave78'', ''node12.13.0-chrome80-ff73'',
     ''node12.13.0-chrome80-ff74'', ''node12.14.0-chrome79-ff71'',
     ''node12.14.1-chrome83-ff77'', ''node12.16.1-chrome80-ff73'',
     ''node12.16.2-chrome81-ff75'', ''node12.18.0-chrome83-ff77'', ''node12.4.0-chrome76'',
     ''node12.6.0-chrome75'', ''node12.6.0-chrome77'', ''node12.8.1-chrome78-ff70'',
     ''node12.8.1-chrome80-ff72'', ''node13.1.0-chrome78-ff70'',
     ''node13.3.0-chrome79-ff70'', ''node13.6.0-chrome80-ff72'']"

definition browser_isSkipped :: "string \<Rightarrow> bool" where
  "browser_isSkipped t = (t \<in> set browser_skipImages)"

definition browser_isIncluded :: "imageAndTag \<Rightarrow> bool" where
  "browser_isIncluded i = (\<not> browser_isSkipped (tag i))"

text \<open>
  The callback of \<^verbatim>\<open>map\<close> in \<^verbatim>\<open>formBrowserWorkflow\<close>: it throws when no browser
  is found in the tag, and returns the job otherwise.
\<close>

definition browserJob :: "imageAndTag \<Rightarrow> error + string" where
  \<open>browserJob i =
    (let chromeVersion = findChromeVersion (tag i);
         firefoxVersion = findFirefoxVersion (tag i);
         edgeVersion = findEdgeVersion (tag i);
         foundBrowser = js_or (js_or chromeVersion firefoxVersion) edgeVersion
     in if \<not> truthy foundBrowser
        then Inl (Error (''Cannot find any browsers from image tag "'' @ tag i @ ''"''))
        else
          let job = ''      - build-browser-image:\<newline>'' @
                    ''          name: "browsers '' @ tag i @ ''"\<newline>'' @
                    ''          dockerTag: "'' @ tag i @ ''"\<newline>'';
              job = (if truthy chromeVersion
                     then job @ ''          chromeVersion: "'' @ the chromeVersion @ ''"\<newline>''
                     else job);
              job = (if truthy firefoxVersion
                     then job @ ''          firefoxVersion: "'' @ the firefoxVersion @ ''"\<newline>''
                     else job);
              job = (if truthy edgeVersion
                     then job @ ''          edgeVersion: "'' @ the edgeVersion @ ''"\<newline>''
                     else job)
          in Inr job)\<close>

text \<open>
  \<^verbatim>\<open>Array.prototype.map\<close> with a callback that may throw: the elements are
  visited from the left and the first exception ends the traversal.
\<close>

fun mapThrowing :: "('a \<Rightarrow> error + 'b) \<Rightarrow> 'a list \<Rightarrow> error + 'b list" where
  "mapThrowing f [] = Inr []"
| "mapThrowing f (x # xs) =
    (case f x of
       Inl e \<Rightarrow> Inl e
     | Inr y \<Rightarrow> (case mapThrowing f xs of Inl e \<Rightarrow> Inl e | Inr ys \<Rightarrow> Inr (y # ys)))"

definition browserYml :: "imageAndTag list \<Rightarrow> error + string list" where
  "browserYml browserImages = mapThrowing browserJob (filter browser_isIncluded browserImages)"

definition browser_workflowName :: string where
  "browser_workflowName = ''  build-browser-images:\<newline>'' @ ''    jobs:\<newline>''"

definition formBrowserWorkflow :: "imageAndTag list \<Rightarrow> error + string" where
  "formBrowserWorkflow browserImages =
    (case browserYml browserImages of
       Inl e \<Rightarrow> Inl e
     | Inr yml \<Rightarrow> Inr (browser_workflowName @ concat yml))"

subsection \<open>Semantic versions\<close>

text \<open>
  Modelled from the spec: \<^verbatim>\<open>semver.lt\<close> belongs to the npm package \<^verbatim>\<open>semver\<close>,
  which the script loads with \<^verbatim>\<open>require\<close> and which is not part of the source
  file. The spec asks for "standard semantic-version ordering (major.minor.patch,
  pre-release rules)" and for a failure on a tag that is not a valid semantic
  version. The model below is the grammar and the precedence of Semantic
  Versioning 2.0.0: three numeric fields without leading zeros, an optional
  pre-release part after \<^verbatim>\<open>-\<close>, optional build metadata after \<^verbatim>\<open>+\<close> (checked,
  then ignored by the ordering).
\<close>

datatype preId = Numeric nat | Alphanumeric string

record SemVer =
  major :: nat
  minor :: nat
  patch :: nat
  prerelease :: "preId list"

fun splitOn :: "char \<Rightarrow> string \<Rightarrow> string list" where
  "splitOn sep [] = [[]]"
| "splitOn sep (c # cs) =
    (if c = sep then [] # splitOn sep cs
     else (case splitOn sep cs of [] \<Rightarrow> [[c]] | p # ps \<Rightarrow> (c # p) # ps))"

definition natOfDigits :: "string \<Rightarrow> nat" where
  "natOfDigits s = foldl (\<lambda>n c. 10 * n + (of_char c - 48)) 0 s"

definition isNumericIdentifier :: "string \<Rightarrow> bool" where
  "isNumericIdentifier s = (s \<noteq> [] \<and> list_all isDigit s \<and> (s = ''0'' \<or> hd s \<noteq> CHR ''0''))"

definition isIdentifierChar :: "char \<Rightarrow> bool" where
  "isIdentifierChar c =
    (isDigit c \<or> c \<in> set ''abcdefghijklmnopqrstuvwxyz'' \<or>
     c \<in> set ''ABCDEFGHIJKLMNOPQRSTUVWXYZ'' \<or> c = CHR ''-'')"

definition isIdentifier :: "string \<Rightarrow> bool" where
  "isIdentifier s = (s \<noteq> [] \<and> list_all isIdentifierChar s)"

definition parsePrereleaseIdentifier :: "string \<Rightarrow> preId option" where
  "parsePrereleaseIdentifier s =
    (if isNumericIdentifier s then Some (Numeric (natOfDigits s))
     else if isIdentifier s \<and> \<not> list_all isDigit s then Some (Alphanumeric s)
     else None)"

text \<open>
  Modelled from the spec: the parser of the semver package. A text is a version when
  it reads \<^verbatim>\<open>major.minor.patch\<close>, then optionally \<^verbatim>\<open>-\<close> and dot-separated
  pre-release identifiers, then optionally \<^verbatim>\<open>+\<close> and dot-separated build
  identifiers; \<open>None\<close> is "not a valid semantic version".
\<close>

definition semver_parse :: "string \<Rightarrow> SemVer option" where
  "semver_parse version =
    (let mainPart = takeWhile (\<lambda>c. c \<noteq> CHR ''+'') version;
         buildPart = dropWhile (\<lambda>c. c \<noteq> CHR ''+'') version;
         buildOk = (buildPart = [] \<or> list_all isIdentifier (splitOn CHR ''.'' (tl buildPart)));
         core = takeWhile (\<lambda>c. c \<noteq> CHR ''-'') mainPart;
         prePart = dropWhile (\<lambda>c. c \<noteq> CHR ''-'') mainPart;
         pre = (if prePart = [] then Some []
                else those (map parsePrereleaseIdentifier (splitOn CHR ''.'' (tl prePart))))
     in case splitOn CHR ''.'' core of
          [a, b, c] \<Rightarrow>
            (if isNumericIdentifier a \<and> isNumericIdentifier b \<and> isNumericIdentifier c \<and> buildOk
             then (case pre of
                     Some ids \<Rightarrow>
                       Some \<lparr>major = natOfDigits a, minor = natOfDigits b,
                             patch = natOfDigits c, prerelease = ids\<rparr>
                   | None \<Rightarrow> None)
             else None)
        | _ \<Rightarrow> None)"

definition compareNat :: "nat \<Rightarrow> nat \<Rightarrow> int" where
  "compareNat a b = (if a < b then - 1 else if b < a then 1 else 0)"

text \<open>Alphanumeric identifiers are compared character by character in ASCII order.\<close>

fun compareString :: "string \<Rightarrow> string \<Rightarrow> int" where
  "compareString [] [] = 0"
| "compareString [] (b # bs) = - 1"
| "compareString (a # as) [] = 1"
| "compareString (a # as) (b # bs) =
    (if a = b then compareString as bs else compareNat (of_char a) (of_char b))"

fun compareIdentifiers :: "preId \<Rightarrow> preId \<Rightarrow> int" where
  "compareIdentifiers (Numeric a) (Numeric b) = compareNat a b"
| "compareIdentifiers (Numeric a) (Alphanumeric b) = - 1"
| "compareIdentifiers (Alphanumeric a) (Numeric b) = 1"
| "compareIdentifiers (Alphanumeric a) (Alphanumeric b) = compareString a b"

fun compareIdentifierLists :: "preId list \<Rightarrow> preId list \<Rightarrow> int" where
  "compareIdentifierLists [] [] = 0"
| "compareIdentifierLists (a # as) [] = 1"
| "compareIdentifierLists [] (b # bs) = - 1"
| "compareIdentifierLists (a # as) (b # bs) =
    (if a = b then compareIdentifierLists as bs else compareIdentifiers a b)"

text \<open>A version with a pre-release part precedes the same version without one.\<close>

definition comparePre :: "SemVer \<Rightarrow> SemVer \<Rightarrow> int" where
  "comparePre a b =
    (if prerelease a \<noteq> [] \<and> prerelease b = [] then - 1
     else if prerelease a = [] \<and> prerelease b \<noteq> [] then 1
     else compareIdentifierLists (prerelease a) (prerelease b))"

definition compareMain :: "SemVer \<Rightarrow> SemVer \<Rightarrow> int" where
  "compareMain a b =
    (if compareNat (major a) (major b) \<noteq> 0 then compareNat (major a) (major b)
     else if compareNat (minor a) (minor b) \<noteq> 0 then compareNat (minor a) (minor b)
     else compareNat (patch a) (patch b))"

text \<open>
  Modelled from the spec: the ordering of the semver package, "major.minor.patch,
  pre-release rules"; the result is negative, zero or positive.
\<close>

definition semver_compare :: "SemVer \<Rightarrow> SemVer \<Rightarrow> int" where
  "semver_compare a b = (if compareMain a b \<noteq> 0 then compareMain a b else comparePre a b)"

text \<open>
  Modelled from the spec: \<^verbatim>\<open>semver.lt(a, b)\<close> of the semver package. Both texts are
  parsed, and a text that is no version throws ("must fail fast").
\<close>

definition semver_lt :: "string \<Rightarrow> string \<Rightarrow> error + bool" where
  "semver_lt a b =
    (case semver_parse a of
       None \<Rightarrow> Inl (TypeError (''Invalid Version: '' @ a))
     | Some va \<Rightarrow>
         (case semver_parse b of
            None \<Rightarrow> Inl (TypeError (''Invalid Version: '' @ b))
          | Some vb \<Rightarrow> Inr (semver_compare va vb < 0)))"

subsection \<open>Included images\<close>

definition included_isSkipped :: "string \<Rightarrow> error + bool" where
  "included_isSkipped t = semver_lt t ''6.0.0''"

definition included_isIncluded :: "imageAndTag \<Rightarrow> error + bool" where
  "included_isIncluded i =
    (case included_isSkipped (tag i) of Inl e \<Rightarrow> Inl e | Inr skipped \<Rightarrow> Inr (\<not> skipped))"

text \<open>\<^verbatim>\<open>Array.prototype.filter\<close> with a predicate that may throw.\<close>

fun filterThrowing :: "('a \<Rightarrow> error + bool) \<Rightarrow> 'a list \<Rightarrow> error + 'a list" where
  "filterThrowing p [] = Inr []"
| "filterThrowing p (x # xs) =
    (case p x of
       Inl e \<Rightarrow> Inl e
     | Inr keep \<Rightarrow>
         (case filterThrowing p xs of
            Inl e \<Rightarrow> Inl e
          | Inr ys \<Rightarrow> Inr (if keep then x # ys else ys)))"

definition includedJob :: "imageAndTag \<Rightarrow> string" where
  \<open>includedJob i =
    ''      - build-included-image:\<newline>'' @
    ''          name: "included '' @ tag i @ ''"\<newline>'' @
    ''          dockerTag: "'' @ tag i @ ''"\<newline>''\<close>

definition includedYml :: "imageAndTag list \<Rightarrow> error + string list" where
  "includedYml images =
    (case filterThrowing included_isIncluded images of
       Inl e \<Rightarrow> Inl e
     | Inr kept \<Rightarrow> Inr (map includedJob kept))"

definition included_workflowName :: string where
  "included_workflowName = ''  build-included-images:\<newline>'' @ ''    jobs:\<newline>''"

definition formIncludedWorkflow :: "imageAndTag list \<Rightarrow> error + string" where
  "formIncludedWorkflow images =
    (case includedYml images of
       Inl e \<Rightarrow> Inl e
     | Inr yml \<Rightarrow> Inr (included_workflowName @ concat yml))"

subsection \<open>Writing the file\<close>

text \<open>
  What the script can change: the files (a map from path to content) and the
  console. \<open>unwritable\<close> holds the paths at which \<^verbatim>\<open>fs.writeFileSync\<close> fails.
  \<^verbatim>\<open>console.log\<close> is given a text or an array of images; the console keeps the
  values in the order they were printed.
\<close>

datatype logged = Text string | Images "imageAndTag list"

record world =
  files :: "string \<rightharpoonup> string"
  unwritable :: "string set"
  console :: "logged list"

definition writeFileSync :: "string \<Rightarrow> string \<Rightarrow> world \<Rightarrow> error + world" where
  "writeFileSync path text w =
    (if path \<in> unwritable w then Inl (SystemError path)
     else Inr (w\<lparr>files := (files w)(path \<mapsto> text)\<rparr>))"

definition console_log :: "logged \<Rightarrow> world \<Rightarrow> world" where
  "console_log line w = w\<lparr>console := console w @ [line]\<rparr>"

text \<open>
  \<^verbatim>\<open>String.prototype.trim\<close> on the bytes of an ASCII text: tab, line feed,
  vertical tab, form feed, carriage return and space are removed at both ends.
\<close>

definition isSpace :: "char \<Rightarrow> bool" where
  "isSpace c = (c \<in> set [CHR 0x09, CHR 0x0A, CHR 0x0B, CHR 0x0C, CHR 0x0D, CHR 0x20])"

definition trim :: "string \<Rightarrow> string" where
  "trim s = rev (dropWhile isSpace (rev (dropWhile isSpace s)))"

text \<open>
  The template literal \<^verbatim>\<open>preamble\<close> (lines 10 to 504 of the script), cut into
  parts of forty lines. \<^verbatim>\<open>path.basename(__filename)\<close> is the script's own file
  name, \<^verbatim>\<open>generate-config.js\<close>. A character that cannot stand in a string
  literal of the theory is written by its code: the quote \<^verbatim>\<open>'\<close> is 0x27, the
  backslash is 0x5C, and the one emoji of the text is the four bytes of its UTF-8 form.
\<close>

definition preamble_part1 :: string where
  \<open>preamble_part1 =
   ''\<newline>'' @
   ''# WARNING: this file is automatically generated by generate-config.js\<newline>'' @
   ''# info on building Docker images on Circle\<newline>'' @
   ''# https://circleci.com/docs/2.0/building-docker-images/\<newline>'' @
   ''version: 2.1\<newline>'' @
   ''\<newline>'' @
   ''orbs:\<newline>'' @
   ''  node: circleci/node@1.1\<newline>'' @
   ''\<newline>'' @
   ''commands:\<newline>'' @
   ''  halt-on-branch:\<newline>'' @
   ''    description: Halt current CircleCI job if not on master branch\<newline>'' @
   ''    steps:\<newline>'' @
   ''      - run:\<newline>'' @
   ''          name: Halting job if not on master branch\<newline>'' @
   ''          command: |\<newline>'' @
   ''            if [[ "$CIRCLE_BRANCH" != "master" ]]; then\<newline>'' @
   ''              echo "Not master branch, will skip the rest of commands"\<newline>'' @
   ''              circleci-agent step halt\<newline>'' @
   ''            else\<newline>'' @
   ''              echo "On master branch, can continue"\<newline>'' @
   ''            fi\<newline>'' @
   ''\<newline>'' @
   ''  halt-if-docker-image-exists:\<newline>'' @
   ''    description: Halt current CircleCI job if Docker image exists already\<newline>'' @
   ''    parameters:\<newline>'' @
   ''      imageName:\<newline>'' @
   ''        type: string\<newline>'' @
   ''        description: Docker image name to test\<newline>'' @
   ''    steps:\<newline>'' @
   ''      - run:\<newline>'' @
   ''          name: Check if image << parameters.imageName >> exists or Docker hub does not respond\<newline>'' @
   ''          # using https://github.com/cypress-io/docker-image-not-found\<newline>'' @
   ''          # to check if Docker hub definitely does not have this image\<newline>'' @
   ''          command: |\<newline>'' @
   ''            if npx docker-image-not-found --repo << parameters.imageName >>; then\<newline>'' @
   ''              echo Docker hub says image << parameters.imageName >> does not exist\<newline>'' @
   ''            else\<newline>'' @
   ''              echo Docker hub has image << parameters.imageName >> or not responding\<newline>'' @
   ''              echo We should stop in this case\<newline>''\<close>

definition preamble_part2 :: string where
  \<open>preamble_part2 =
   ''              circleci-agent step halt\<newline>'' @
   ''            fi\<newline>'' @
   ''\<newline>'' @
   ''  test-base-image:\<newline>'' @
   ''    description: Build a test image from base image and test it\<newline>'' @
   ''    parameters:\<newline>'' @
   ''      nodeVersion:\<newline>'' @
   ''        type: string\<newline>'' @
   ''        description: Node version to expect in the base image, starts with "v"\<newline>'' @
   ''      imageName:\<newline>'' @
   ''        type: string\<newline>'' @
   ''        description: Cypress base docker image to test\<newline>'' @
   ''      checkNodeVersion:\<newline>'' @
   ''        type: boolean\<newline>'' @
   ''        description: Check if the FROM image name is strict Node version\<newline>'' @
   ''        default: true\<newline>'' @
   ''    steps:\<newline>'' @
   ''      - when:\<newline>'' @
   ''          condition: << parameters.checkNodeVersion >>\<newline>'' @
   ''          steps:\<newline>'' @
   ''          - run:\<newline>'' @
   ''              name: confirm image has Node << parameters.nodeVersion >>\<newline>'' @
   ''              # do not run Docker in the interactive mode - adds control characters!\<newline>'' @
   ''              command: |\<newline>'' @
   ''                version=$(docker run << parameters.imageName >> node --version)\<newline>'' @
   ''                if [ "$version" == "<< parameters.nodeVersion >>" ]; then\<newline>'' @
   ''                  echo "Base image has the expected version of Node << parameters.nodeVersion >>";\<newline>'' @
   ''                else\<newline>'' @
   ''                  echo "Problem: base image has unexpected Node version"\<newline>'' @
   ''                  echo "Expected << parameters.nodeVersion >> and got $version"\<newline>'' @
   ''                  exit 1\<newline>'' @
   ''                fi\<newline>'' @
   ''      - run:\<newline>'' @
   ''          name: test image << parameters.imageName >>\<newline>'' @
   ''          no_output_timeout: '' @ [CHR 0x27] @ ''3m'' @ [CHR 0x27] @ ''\<newline>'' @
   ''          command: |\<newline>'' @
   ''            docker build -t cypress/test -'' @ [CHR 0x5C] @ ''<<EOF\<newline>'' @
   ''            FROM << parameters.imageName >>\<newline>'' @
   ''            RUN echo "current user: $(whoami)"\<newline>'' @
   ''            ENV CI=1\<newline>''\<close>

definition preamble_part3 :: string where
  \<open>preamble_part3 =
   ''            RUN npm init --yes\<newline>'' @
   ''            RUN npm install --save-dev cypress cypress-expect\<newline>'' @
   ''            RUN ./node_modules/.bin/cypress verify\<newline>'' @
   ''            RUN npx @bahmutov/cly init\<newline>'' @
   ''            # run Cypress by itself\<newline>'' @
   ''            RUN ./node_modules/.bin/cypress run\<newline>'' @
   ''            # run Cypress using module API and confirm number of passing tests\<newline>'' @
   ''            RUN ./node_modules/.bin/cypress-expect run --passing 1\<newline>'' @
   ''            EOF\<newline>'' @
   ''\<newline>'' @
   ''      - run:\<newline>'' @
   ''          name: test image << parameters.imageName >> using Kitchensink\<newline>'' @
   ''          no_output_timeout: '' @ [CHR 0x27] @ ''3m'' @ [CHR 0x27] @ ''\<newline>'' @
   ''          command: |\<newline>'' @
   ''            docker build -t cypress/test-kitchensink -'' @ [CHR 0x5C] @ ''<<EOF\<newline>'' @
   ''            FROM << parameters.imageName >>\<newline>'' @
   ''            RUN echo "current user: $(whoami)"\<newline>'' @
   ''            ENV CI=1\<newline>'' @
   ''            ENV CYPRESS_INTERNAL_FORCE_SCAFFOLD=1\<newline>'' @
   ''            RUN npm init --yes\<newline>'' @
   ''            RUN npm install --save-dev cypress cypress-expect\<newline>'' @
   ''            RUN ./node_modules/.bin/cypress verify\<newline>'' @
   ''            RUN echo '' @ [CHR 0x27] @ ''{}'' @ [CHR 0x27] @ '' > cypress.json\<newline>'' @
   ''            # run Cypress and confirm minimum number of passing tets\<newline>'' @
   ''            RUN ./node_modules/.bin/cypress-expect run --min-passing 100\<newline>'' @
   ''            EOF\<newline>'' @
   ''\<newline>'' @
   ''  test-browser-image:\<newline>'' @
   ''    description: Build a test image from browser image and test it\<newline>'' @
   ''    parameters:\<newline>'' @
   ''      imageName:\<newline>'' @
   ''        type: string\<newline>'' @
   ''        description: Cypress browser docker image to test\<newline>'' @
   ''      chromeVersion:\<newline>'' @
   ''        type: string\<newline>'' @
   ''        default: '' @ [CHR 0x27] @ [CHR 0x27] @ ''\<newline>'' @
   ''        description: Chrome version to expect in the base image, starts with "Google Chrome XX"\<newline>'' @
   ''      firefoxVersion:\<newline>'' @
   ''        type: string\<newline>'' @
   ''        default: '' @ [CHR 0x27] @ [CHR 0x27] @ ''\<newline>''\<close>

definition preamble_part4 :: string where
  \<open>preamble_part4 =
   ''        description: Firefox version to expect in the base image, starts with "Mozilla Firefox XX"\<newline>'' @
   ''      edgeVersion:\<newline>'' @
   ''        type: string\<newline>'' @
   ''        default: '' @ [CHR 0x27] @ [CHR 0x27] @ ''\<newline>'' @
   ''        description: Edge version to expect in the base image, starts with "Microsoft Edge XX"\<newline>'' @
   ''    steps:\<newline>'' @
   ''      - when:\<newline>'' @
   ''          condition: << parameters.chromeVersion >>\<newline>'' @
   ''          steps:\<newline>'' @
   ''          - run:\<newline>'' @
   ''              name: confirm image has Chrome << parameters.chromeVersion >>\<newline>'' @
   ''              # do not run Docker in the interactive mode - adds control characters!\<newline>'' @
   ''              # and use Bash regex string comparison\<newline>'' @
   ''              command: |\<newline>'' @
   ''                version=$(docker run << parameters.imageName >> google-chrome --version)\<newline>'' @
   ''                if [[ "$version" =~ ^"<< parameters.chromeVersion >>" ]]; then\<newline>'' @
   ''                  echo "Image has the expected version of Chrome << parameters.chromeVersion >>"\<newline>'' @
   ''                  echo "found $version"\<newline>'' @
   ''                else\<newline>'' @
   ''                  echo "Problem: image has unexpected Chrome version"\<newline>'' @
   ''                  echo "Expected << parameters.chromeVersion >> and got $version"\<newline>'' @
   ''                  exit 1\<newline>'' @
   ''                fi\<newline>'' @
   ''\<newline>'' @
   ''      - when:\<newline>'' @
   ''          condition: << parameters.firefoxVersion >>\<newline>'' @
   ''          steps:\<newline>'' @
   ''          - run:\<newline>'' @
   ''              name: confirm the image has Firefox << parameters.firefoxVersion >>\<newline>'' @
   ''              command: |\<newline>'' @
   ''                version=$(docker run << parameters.imageName >> firefox --version)\<newline>'' @
   ''                if [[ "$version" =~ ^"<< parameters.firefoxVersion >>" ]]; then\<newline>'' @
   ''                  echo "Image has the expected version of Firefox << parameters.firefoxVersion >>"\<newline>'' @
   ''                  echo "found $version"\<newline>'' @
   ''                else\<newline>'' @
   ''                  echo "Problem: image has unexpected Firefox version"\<newline>'' @
   ''                  echo "Expected << parameters.firefoxVersion >> and got $version"\<newline>'' @
   ''                  exit 1\<newline>'' @
   ''                fi\<newline>'' @
   ''\<newline>''\<close>

definition preamble_part5 :: string where
  \<open>preamble_part5 =
   ''      - when:\<newline>'' @
   ''          condition: << parameters.edgeVersion >>\<newline>'' @
   ''          steps:\<newline>'' @
   ''          - run:\<newline>'' @
   ''              name: confirm the image has Edge << parameters.edgeVersion >>\<newline>'' @
   ''              command: |\<newline>'' @
   ''                version=$(docker run << parameters.imageName >> edge --version)\<newline>'' @
   ''                if [[ "$version" =~ ^"<< parameters.edgeVersion >>" ]]; then\<newline>'' @
   ''                  echo "Image has the expected version of Edge << parameters.edgeVersion >>"\<newline>'' @
   ''                  echo "found $version"\<newline>'' @
   ''                else\<newline>'' @
   ''                  echo "Problem: image has unexpected Edge version"\<newline>'' @
   ''                  echo "Expected << parameters.edgeVersion >> and got $version"\<newline>'' @
   ''                  exit 1\<newline>'' @
   ''                fi\<newline>'' @
   ''\<newline>'' @
   ''      - run:\<newline>'' @
   ''          name: test image << parameters.imageName >>\<newline>'' @
   ''          no_output_timeout: '' @ [CHR 0x27] @ ''3m'' @ [CHR 0x27] @ ''\<newline>'' @
   ''          command: |\<newline>'' @
   ''            docker build -t cypress/test -'' @ [CHR 0x5C] @ ''<<EOF\<newline>'' @
   ''            FROM << parameters.imageName >>\<newline>'' @
   ''            RUN echo "current user: $(whoami)"\<newline>'' @
   ''            ENV CI=1\<newline>'' @
   ''            RUN npm init --yes\<newline>'' @
   ''            RUN npm install --save-dev cypress\<newline>'' @
   ''            RUN ./node_modules/.bin/cypress verify\<newline>'' @
   ''            RUN npx @bahmutov/cly init\<newline>'' @
   ''            EOF\<newline>'' @
   ''\<newline>'' @
   ''      - run:\<newline>'' @
   ''          name: Test built-in Electron browser\<newline>'' @
   ''          no_output_timeout: '' @ [CHR 0x27] @ ''1m'' @ [CHR 0x27] @ ''\<newline>'' @
   ''          command: docker run cypress/test ./node_modules/.bin/cypress run\<newline>'' @
   ''\<newline>'' @
   ''      - when:\<newline>'' @
   ''          condition: << parameters.chromeVersion >>\<newline>'' @
   ''          steps:\<newline>'' @
   ''          - run:\<newline>'' @
   ''              name: Test << parameters.chromeVersion >>\<newline>''\<close>

definition preamble_part6 :: string where
  \<open>preamble_part6 =
   ''              no_output_timeout: '' @ [CHR 0x27] @ ''1m'' @ [CHR 0x27] @ ''\<newline>'' @
   ''              command: docker run cypress/test ./node_modules/.bin/cypress run --browser chrome\<newline>'' @
   ''\<newline>'' @
   ''      - when:\<newline>'' @
   ''          condition: << parameters.firefoxVersion >>\<newline>'' @
   ''          steps:\<newline>'' @
   ''          - run:\<newline>'' @
   ''              name: Test << parameters.firefoxVersion >>\<newline>'' @
   ''              no_output_timeout: '' @ [CHR 0x27] @ ''1m'' @ [CHR 0x27] @ ''\<newline>'' @
   ''              command: docker run cypress/test ./node_modules/.bin/cypress run --browser firefox\<newline>'' @
   ''\<newline>'' @
   ''      - when:\<newline>'' @
   ''          condition: << parameters.edgeVersion >>\<newline>'' @
   ''          steps:\<newline>'' @
   ''          - run:\<newline>'' @
   ''              name: Test << parameters.edgeVersion >>\<newline>'' @
   ''              no_output_timeout: '' @ [CHR 0x27] @ ''1m'' @ [CHR 0x27] @ ''\<newline>'' @
   ''              command: docker run cypress/test ./node_modules/.bin/cypress run --browser edge\<newline>'' @
   ''\<newline>'' @
   ''      - run:\<newline>'' @
   ''          name: scaffold image << parameters.imageName >> using Kitchensink\<newline>'' @
   ''          no_output_timeout: '' @ [CHR 0x27] @ ''3m'' @ [CHR 0x27] @ ''\<newline>'' @
   ''          command: |\<newline>'' @
   ''            docker build -t cypress/test-kitchensink -'' @ [CHR 0x5C] @ ''<<EOF\<newline>'' @
   ''            FROM << parameters.imageName >>\<newline>'' @
   ''            RUN echo "current user: $(whoami)"\<newline>'' @
   ''            ENV CI=1\<newline>'' @
   ''            ENV CYPRESS_INTERNAL_FORCE_SCAFFOLD=1\<newline>'' @
   ''            RUN npm init --yes\<newline>'' @
   ''            RUN npm install --save-dev cypress\<newline>'' @
   ''            RUN ./node_modules/.bin/cypress verify\<newline>'' @
   ''            RUN echo '' @ [CHR 0x27] @ ''{}'' @ [CHR 0x27] @ '' > cypress.json\<newline>'' @
   ''            EOF\<newline>'' @
   ''\<newline>'' @
   ''      - when:\<newline>'' @
   ''          condition: << parameters.chromeVersion >>\<newline>'' @
   ''          steps:\<newline>'' @
   ''          - run:\<newline>'' @
   ''              name: Test << parameters.chromeVersion >>\<newline>'' @
   ''              no_output_timeout: '' @ [CHR 0x27] @ ''1m'' @ [CHR 0x27] @ ''\<newline>''\<close>

definition preamble_part7 :: string where
  \<open>preamble_part7 =
   ''              command: docker run cypress/test-kitchensink ./node_modules/.bin/cypress run --browser chrome\<newline>'' @
   ''\<newline>'' @
   ''      - when:\<newline>'' @
   ''          condition: << parameters.firefoxVersion >>\<newline>'' @
   ''          steps:\<newline>'' @
   ''          - run:\<newline>'' @
   ''              name: Test << parameters.firefoxVersion >>\<newline>'' @
   ''              no_output_timeout: '' @ [CHR 0x27] @ ''1m'' @ [CHR 0x27] @ ''\<newline>'' @
   ''              command: docker run cypress/test-kitchensink ./node_modules/.bin/cypress run --browser firefox\<newline>'' @
   ''\<newline>'' @
   ''      - when:\<newline>'' @
   ''          condition: << parameters.edgeVersion >>\<newline>'' @
   ''          steps:\<newline>'' @
   ''          - run:\<newline>'' @
   ''              name: Test << parameters.edgeVersion >>\<newline>'' @
   ''              no_output_timeout: '' @ [CHR 0x27] @ ''1m'' @ [CHR 0x27] @ ''\<newline>'' @
   ''              command: docker run cypress/test-kitchensink ./node_modules/.bin/cypress run --browser edge\<newline>'' @
   ''\<newline>'' @
   ''  test-included-image-versions:\<newline>'' @
   ''    description: Testing pre-installed versions\<newline>'' @
   ''    parameters:\<newline>'' @
   ''      cypressVersion:\<newline>'' @
   ''        type: string\<newline>'' @
   ''        description: Cypress version to test, like "4.0.0"\<newline>'' @
   ''      imageName:\<newline>'' @
   ''        type: string\<newline>'' @
   ''        description: Cypress included docker image to test\<newline>'' @
   ''    steps:\<newline>'' @
   ''      - run:\<newline>'' @
   ''          name: '' @ [CHR 0x27] @ ''Print versions'' @ [CHR 0x27] @ ''\<newline>'' @
   ''          command: docker run -it --entrypoint cypress cypress/included:<< parameters.cypressVersion >> version\<newline>'' @
   ''\<newline>'' @
   ''      - run:\<newline>'' @
   ''          name: '' @ [CHR 0x27] @ ''Print info'' @ [CHR 0x27] @ ''\<newline>'' @
   ''          command: docker run -it --entrypoint cypress cypress/included:<< parameters.cypressVersion >> info\<newline>'' @
   ''\<newline>'' @
   ''      - run:\<newline>'' @
   ''          name: '' @ [CHR 0x27] @ ''Check Node version'' @ [CHR 0x27] @ ''\<newline>'' @
   ''          command: |\<newline>'' @
   ''            export NODE_VERSION=$(docker run --entrypoint node cypress/included:<< parameters.cypressVersion >> --version)\<newline>''\<close>

definition preamble_part8 :: string where
  \<open>preamble_part8 =
   ''            export CYPRESS_NODE_VERSION=$(docker run --entrypoint cypress cypress/included:<< parameters.cypressVersion >> version --component node)\<newline>'' @
   ''            echo "Included Node $NODE_VERSION"\<newline>'' @
   ''            echo "Cypress includes Node $CYPRESS_NODE_VERSION"\<newline>'' @
   ''            # "node --version" returns something like "v12.1.2"\<newline>'' @
   ''            # and "cypres version ..." returns just "12.1.2"\<newline>'' @
   ''            if [ "$NODE_VERSION" = "v$CYPRESS_NODE_VERSION" ]; then\<newline>'' @
   ''              echo "Node versions match"\<newline>'' @
   ''            else\<newline>'' @
   ''              echo "Node version mismatch '' @ [CHR 0xF0] @ [CHR 0x9F] @ [CHR 0x94] @ [CHR 0xA5] @ ''"\<newline>'' @
   ''              # TODO make sure there are no extra characters in the versions\<newline>'' @
   ''              # https://github.com/cypress-io/cypress-docker-images/issues/411\<newline>'' @
   ''              # exit 1\<newline>'' @
   ''            fi\<newline>'' @
   ''\<newline>'' @
   ''  test-included-image:\<newline>'' @
   ''    description: Testing Docker image with Cypress pre-installed\<newline>'' @
   ''    parameters:\<newline>'' @
   ''      cypressVersion:\<newline>'' @
   ''        type: string\<newline>'' @
   ''        description: Cypress version to test, like "4.0.0"\<newline>'' @
   ''      imageName:\<newline>'' @
   ''        type: string\<newline>'' @
   ''        description: Cypress included docker image to test\<newline>'' @
   ''    steps:\<newline>'' @
   ''      - run:\<newline>'' @
   ''          name: New test project and testing\<newline>'' @
   ''          no_output_timeout: '' @ [CHR 0x27] @ ''3m'' @ [CHR 0x27] @ ''\<newline>'' @
   ''          command: |\<newline>'' @
   ''            node --version\<newline>'' @
   ''            mkdir test\<newline>'' @
   ''            cd test\<newline>'' @
   ''            echo "Initializing test project"\<newline>'' @
   ''            npx @bahmutov/cly init --cypress-version << parameters.cypressVersion >>\<newline>'' @
   ''\<newline>'' @
   ''            echo "Testing using Electron browser"\<newline>'' @
   ''            docker run -it -v $PWD:/e2e -w /e2e cypress/included:<< parameters.cypressVersion >>\<newline>'' @
   ''\<newline>'' @
   ''            echo "Testing using Chrome browser"\<newline>'' @
   ''            docker run -it -v $PWD:/e2e -w /e2e cypress/included:<< parameters.cypressVersion >> --browser chrome\<newline>'' @
   ''          working_directory: /tmp\<newline>''\<close>

definition preamble_part9 :: string where
  \<open>preamble_part9 =
   ''\<newline>'' @
   ''  test-included-image-using-kitchensink:\<newline>'' @
   ''    description: Testing Cypress pre-installed using Kitchensink\<newline>'' @
   ''    parameters:\<newline>'' @
   ''      cypressVersion:\<newline>'' @
   ''        type: string\<newline>'' @
   ''        description: Cypress version to test, like "4.0.0"\<newline>'' @
   ''      imageName:\<newline>'' @
   ''        type: string\<newline>'' @
   ''        description: Cypress included docker image to test\<newline>'' @
   ''    steps:\<newline>'' @
   ''      - run:\<newline>'' @
   ''          name: Testing Kitchensink\<newline>'' @
   ''          no_output_timeout: '' @ [CHR 0x27] @ ''3m'' @ [CHR 0x27] @ ''\<newline>'' @
   ''          command: |\<newline>'' @
   ''            node --version\<newline>'' @
   ''            mkdir test-kitchensink\<newline>'' @
   ''            cd test-kitchensink\<newline>'' @
   ''\<newline>'' @
   ''            npm init -y\<newline>'' @
   ''            echo '' @ [CHR 0x27] @ ''{}'' @ [CHR 0x27] @ '' > cypress.json\<newline>'' @
   ''\<newline>'' @
   ''            echo "Testing using Electron browser"\<newline>'' @
   ''            docker run -it -v $PWD:/e2e -w /e2e -e CYPRESS_INTERNAL_FORCE_SCAFFOLD=1 cypress/included:<< parameters.cypressVersion >>\<newline>'' @
   ''\<newline>'' @
   ''            echo "Testing using Chrome browser"\<newline>'' @
   ''            docker run -it -v $PWD:/e2e -w /e2e -e CYPRESS_INTERNAL_FORCE_SCAFFOLD=1 cypress/included:<< parameters.cypressVersion >> --browser chrome\<newline>'' @
   ''\<newline>'' @
   ''          working_directory: /tmp\<newline>'' @
   ''\<newline>'' @
   ''  docker-push:\<newline>'' @
   ''    description: Log in and push a given image to Docker hub\<newline>'' @
   ''    parameters:\<newline>'' @
   ''      imageName:\<newline>'' @
   ''        type: string\<newline>'' @
   ''        description: Docker image name to push\<newline>'' @
   ''    steps:\<newline>'' @
   ''      # before pushing, let'' @ [CHR 0x27] @ ''s check again that the Docker Hub does not have the image\<newline>'' @
   ''      # accidental rebuild and overwrite of an image is bad, since it can bump every tool\<newline>'' @
   ''      # https://github.com/cypress-io/cypress/issues/6335\<newline>''\<close>

definition preamble_part10 :: string where
  \<open>preamble_part10 =
   ''      - halt-if-docker-image-exists:\<newline>'' @
   ''          imageName: << parameters.imageName >>\<newline>'' @
   ''      - run:\<newline>'' @
   ''          name: Pushing image << parameters.imageName >> to Docker Hub\<newline>'' @
   ''          command: |\<newline>'' @
   ''            echo "$DOCKERHUB_PASS" | docker login -u "$DOCKERHUB_USERNAME" --password-stdin\<newline>'' @
   ''            docker push << parameters.imageName >>\<newline>'' @
   ''\<newline>'' @
   ''jobs:\<newline>'' @
   ''  lint-markdown:\<newline>'' @
   ''    executor:\<newline>'' @
   ''      name: node/default\<newline>'' @
   ''      tag: '' @ [CHR 0x27] @ ''12'' @ [CHR 0x27] @ ''\<newline>'' @
   ''    steps:\<newline>'' @
   ''      - checkout\<newline>'' @
   ''      - node/with-cache:\<newline>'' @
   ''          steps:\<newline>'' @
   ''            - run: npm ci\<newline>'' @
   ''      - run: npm run check:markdown\<newline>'' @
   ''\<newline>'' @
   ''  build-base-image:\<newline>'' @
   ''    machine: true\<newline>'' @
   ''    parameters:\<newline>'' @
   ''      dockerName:\<newline>'' @
   ''        type: string\<newline>'' @
   ''        description: Image name to build\<newline>'' @
   ''        default: cypress/base\<newline>'' @
   ''      dockerTag:\<newline>'' @
   ''        type: string\<newline>'' @
   ''        description: Image tag to build like "12.14.0"\<newline>'' @
   ''      checkNodeVersion:\<newline>'' @
   ''        type: boolean\<newline>'' @
   ''        description: Check if the FROM image name is strict Node version\<newline>'' @
   ''        default: true\<newline>'' @
   ''    steps:\<newline>'' @
   ''      - checkout\<newline>'' @
   ''      - halt-if-docker-image-exists:\<newline>'' @
   ''          imageName: << parameters.dockerName >>:<< parameters.dockerTag >>\<newline>'' @
   ''      - run:\<newline>'' @
   ''          name: building Docker image << parameters.dockerName >>:<< parameters.dockerTag >>\<newline>''\<close>

definition preamble_part11 :: string where
  \<open>preamble_part11 =
   ''          command: |\<newline>'' @
   ''            docker build -t << parameters.dockerName >>:<< parameters.dockerTag >> .\<newline>'' @
   ''          working_directory: base/<< parameters.dockerTag >>\<newline>'' @
   ''\<newline>'' @
   ''      - test-base-image:\<newline>'' @
   ''          nodeVersion: v<< parameters.dockerTag >>\<newline>'' @
   ''          imageName: << parameters.dockerName >>:<< parameters.dockerTag >>\<newline>'' @
   ''          checkNodeVersion: << parameters.checkNodeVersion >>\<newline>'' @
   ''      - halt-on-branch\<newline>'' @
   ''      - docker-push:\<newline>'' @
   ''          imageName: << parameters.dockerName >>:<< parameters.dockerTag >>\<newline>'' @
   ''\<newline>'' @
   ''  build-browser-image:\<newline>'' @
   ''    machine: true\<newline>'' @
   ''    parameters:\<newline>'' @
   ''      dockerName:\<newline>'' @
   ''        type: string\<newline>'' @
   ''        description: Image name to build\<newline>'' @
   ''        default: cypress/browsers\<newline>'' @
   ''      dockerTag:\<newline>'' @
   ''        type: string\<newline>'' @
   ''        description: Image tag to build like "node12.4.0-chrome76"\<newline>'' @
   ''      chromeVersion:\<newline>'' @
   ''        type: string\<newline>'' @
   ''        default: '' @ [CHR 0x27] @ [CHR 0x27] @ ''\<newline>'' @
   ''        description: Chrome version to expect in the base image, starts with "Google Chrome XX"\<newline>'' @
   ''      firefoxVersion:\<newline>'' @
   ''        type: string\<newline>'' @
   ''        default: '' @ [CHR 0x27] @ [CHR 0x27] @ ''\<newline>'' @
   ''        description: Firefox version to expect in the base image, starts with "Mozilla Firefox XX"\<newline>'' @
   ''      edgeVersion:\<newline>'' @
   ''        type: string\<newline>'' @
   ''        default: '' @ [CHR 0x27] @ [CHR 0x27] @ ''\<newline>'' @
   ''        description: Edge version to expect in the base image, starts with "Microsoft Edge XX"\<newline>'' @
   ''    steps:\<newline>'' @
   ''      - checkout\<newline>'' @
   ''      - halt-if-docker-image-exists:\<newline>'' @
   ''          imageName: << parameters.dockerName >>:<< parameters.dockerTag >>\<newline>'' @
   ''      - run:\<newline>'' @
   ''          name: building Docker image << parameters.dockerName >>:<< parameters.dockerTag >>\<newline>''\<close>

definition preamble_part12 :: string where
  \<open>preamble_part12 =
   ''          command: |\<newline>'' @
   ''            docker build -t << parameters.dockerName >>:<< parameters.dockerTag >> .\<newline>'' @
   ''          working_directory: browsers/<< parameters.dockerTag >>\<newline>'' @
   ''      - test-browser-image:\<newline>'' @
   ''          imageName: << parameters.dockerName >>:<< parameters.dockerTag >>\<newline>'' @
   ''          chromeVersion: << parameters.chromeVersion >>\<newline>'' @
   ''          firefoxVersion: << parameters.firefoxVersion >>\<newline>'' @
   ''          edgeVersion: << parameters.edgeVersion >>\<newline>'' @
   ''      - halt-on-branch\<newline>'' @
   ''      - docker-push:\<newline>'' @
   ''          imageName: << parameters.dockerName >>:<< parameters.dockerTag >>\<newline>'' @
   ''\<newline>'' @
   ''  build-included-image:\<newline>'' @
   ''    machine: true\<newline>'' @
   ''    parameters:\<newline>'' @
   ''      dockerName:\<newline>'' @
   ''        type: string\<newline>'' @
   ''        description: Image name to build\<newline>'' @
   ''        default: cypress/included\<newline>'' @
   ''      dockerTag:\<newline>'' @
   ''        type: string\<newline>'' @
   ''        description: Image tag to build, should match Cypress version, like "3.8.1"\<newline>'' @
   ''    steps:\<newline>'' @
   ''      - checkout\<newline>'' @
   ''      # temporarily in this PR\<newline>'' @
   ''      # - halt-if-docker-image-exists:\<newline>'' @
   ''      #    imageName: << parameters.dockerName >>:<< parameters.dockerTag >>\<newline>'' @
   ''      - run:\<newline>'' @
   ''          name: building Docker image << parameters.dockerName >>:<< parameters.dockerTag >>\<newline>'' @
   ''          command: |\<newline>'' @
   ''            docker build -t << parameters.dockerName >>:<< parameters.dockerTag >> .\<newline>'' @
   ''          working_directory: included/<< parameters.dockerTag >>\<newline>'' @
   ''\<newline>'' @
   ''      - test-included-image-versions:\<newline>'' @
   ''          cypressVersion: << parameters.dockerTag >>\<newline>'' @
   ''          imageName: << parameters.dockerName >>:<< parameters.dockerTag >>\<newline>'' @
   ''\<newline>'' @
   ''      - test-included-image:\<newline>'' @
   ''          cypressVersion: << parameters.dockerTag >>\<newline>'' @
   ''          imageName: << parameters.dockerName >>:<< parameters.dockerTag >>\<newline>''\<close>

definition preamble_part13 :: string where
  \<open>preamble_part13 =
   ''\<newline>'' @
   ''      - test-included-image-using-kitchensink:\<newline>'' @
   ''          cypressVersion: << parameters.dockerTag >>\<newline>'' @
   ''          imageName: << parameters.dockerName >>:<< parameters.dockerTag >>\<newline>'' @
   ''\<newline>'' @
   ''      - halt-on-branch\<newline>'' @
   ''      - docker-push:\<newline>'' @
   ''          imageName: << parameters.dockerName >>:<< parameters.dockerTag >>\<newline>'' @
   ''\<newline>'' @
   ''workflows:\<newline>'' @
   ''  version: 2\<newline>'' @
   ''  lint:\<newline>'' @
   ''    jobs:\<newline>'' @
   ''      - lint-markdown\<newline>''\<close>

definition preamble :: string where
  "preamble =
    preamble_part1 @ preamble_part2 @ preamble_part3 @ preamble_part4 @
    preamble_part5 @ preamble_part6 @ preamble_part7 @ preamble_part8 @
    preamble_part9 @ preamble_part10 @ preamble_part11 @ preamble_part12 @
    preamble_part13"

definition writeConfigFile ::
  "platform \<Rightarrow> imageAndTag list \<Rightarrow> imageAndTag list \<Rightarrow> imageAndTag list \<Rightarrow> world
     \<Rightarrow> (error + unit) \<times> world" where
  "writeConfigFile os baseImages browserImages includedImages w =
    (let base = formBaseWorkflow baseImages
     in case formBrowserWorkflow browserImages of
          Inl e \<Rightarrow> (Inl e, w)
        | Inr browsers \<Rightarrow>
            (case formIncludedWorkflow includedImages of
               Inl e \<Rightarrow> (Inl e, w)
             | Inr included \<Rightarrow>
                 (let text = trim preamble @ EOL os @ base @ EOL os @ browsers @ EOL os @ included
                  in case writeFileSync ''circle.yml'' text w of
                       Inl e \<Rightarrow> (Inl e, w)
                     | Inr w' \<Rightarrow> (Inr (), console_log (Text ''generated circle.yml'') w'))))"

subsection \<open>The script's top level\<close>

text \<open>
  \<^verbatim>\<open>folderName.split('/')\<close> and the destructuring \<^verbatim>\<open>[name, tag]\<close>: the first two
  parts of the path. A path without a separator leaves \<^verbatim>\<open>tag\<close> undefined; every
  use of the tag in the script (a template literal, \<^verbatim>\<open>RegExp.exec\<close>, the semver
  parser's message) reads such a value as the text \<^verbatim>\<open>undefined\<close>, which is in
  neither skip list.
\<close>

definition splitImageFolderName :: "string \<Rightarrow> imageAndTag" where
  "splitImageFolderName folderName =
    (case splitOn CHR ''/'' folderName of
       [] \<Rightarrow> \<lparr>name = [], tag = ''undefined''\<rparr>
     | [n] \<Rightarrow> \<lparr>name = n, tag = ''undefined''\<rparr>
     | n # t # _ \<Rightarrow> \<lparr>name = n, tag = t\<rparr>)"

text \<open>
  The body of the asynchronous function the script calls at once. The three lists of
  paths are the values of the awaited \<^verbatim>\<open>globby\<close> calls. The result is how the
  function's promise settles: \<open>Inl e\<close> is a rejection with \<open>e\<close>. The script
  attaches no handler to the promise, catches nothing and never sets an exit status.
\<close>

definition main ::
  "platform \<Rightarrow> string list \<Rightarrow> string list \<Rightarrow> string list \<Rightarrow> world
     \<Rightarrow> (error + unit) \<times> world" where
  "main os basePaths browsersPaths includedPaths w =
    (let base = map splitImageFolderName basePaths;
         w = console_log (Text '' *** base images ***'') w;
         w = console_log (Images base) w;
         browsers = map splitImageFolderName browsersPaths;
         w = console_log (Text '' *** browser images ***'') w;
         w = console_log (Images browsers) w;
         included = map splitImageFolderName includedPaths;
         w = console_log (Text '' *** included images ***'') w;
         w = console_log (Images included) w
     in writeConfigFile os base browsers included w)"

text \<open>
  The exit status is given by the Node runtime, not by the script. A promise that is
  rejected and has no handler is treated as the runtime's mode for unhandled
  rejections says (the option \<^verbatim>\<open>--unhandled-rejections\<close>): \<^verbatim>\<open>throw\<close> (the default
  from Node 15 on) and \<^verbatim>\<open>strict\<close> raise it as an uncaught exception and the process
  ends with status 1, \<^verbatim>\<open>warn-with-error-code\<close> warns and sets the status to 1,
  \<^verbatim>\<open>warn\<close> (the behaviour of the earlier default) and \<^verbatim>\<open>none\<close> leave the status
  at 0. A run whose promise is fulfilled ends with status 0.
\<close>

datatype unhandledRejections = Throw | Strict | Warn | WarnWithErrorCode | Ignore

definition exitStatus :: "unhandledRejections \<Rightarrow> error + unit \<Rightarrow> nat" where
  "exitStatus mode outcome =
    (case outcome of
       Inr _ \<Rightarrow> 0
     | Inl _ \<Rightarrow>
         (case mode of
            Throw \<Rightarrow> 1
          | Strict \<Rightarrow> 1
          | WarnWithErrorCode \<Rightarrow> 1
          | Warn \<Rightarrow> 0
          | Ignore \<Rightarrow> 0))"

subsection \<open>Tags without a browser\<close>

text \<open>
  A tag in which none of the three searches of \<^verbatim>\<open>formBrowserWorkflow\<close> finds a
  match: \<^verbatim>\<open>chrome(\d+)\<close>, \<^verbatim>\<open>-ff(\d+)\<close> and \<^verbatim>\<open>-edge(\d+)\<close> all return
  \<^verbatim>\<open>null\<close>.
\<close>

definition noBrowser :: "string \<Rightarrow> bool" where
  "noBrowser t = (execDigits ''chrome'' t = None \<and> execDigits ''-ff'' t = None \<and>
                  execDigits ''-edge'' t = None)"

section \<open>Properties\<close>

subsection \<open>Traversals that may throw\<close>

text \<open>
  A \<^verbatim>\<open>map\<close> whose callback throws returns a list exactly when the callback
  returns for every element, and then the results stand in the order of the elements;
  otherwise the exception of the first failing element ends it.
\<close>

lemma mapThrowing_Inr_iff:
  "mapThrowing f xs = Inr ys \<longleftrightarrow> list_all2 (\<lambda>x y. f x = Inr y) xs ys"
proof (induction xs arbitrary: ys)
  case Nil
  then show ?case by auto
next
  case (Cons x xs)
  show ?case
  proof (cases "f x")
    case (Inl e)
    then show ?thesis by (auto simp: list_all2_Cons1)
  next
    case fx: (Inr y)
    show ?thesis
    proof (cases "mapThrowing f xs")
      case (Inl e)
      then have "\<not> list_all2 (\<lambda>x y. f x = Inr y) xs zs" for zs
        using Cons.IH [of zs] by simp
      with fx Inl show ?thesis by (auto simp: list_all2_Cons1)
    next
      case (Inr zs)
      then have zs: "list_all2 (\<lambda>x y. f x = Inr y) xs zs' \<longleftrightarrow> zs' = zs" for zs'
        using Cons.IH [of zs'] by auto
      with fx Inr show ?thesis by (auto simp: list_all2_Cons1)
    qed
  qed
qed

lemma mapThrowing_first_error:
  "\<forall>a\<in>set pre. \<exists>y. f a = Inr y \<Longrightarrow> f x = Inl e \<Longrightarrow> mapThrowing f (pre @ x # post) = Inl e"
  by (induction pre) (auto split: sum.splits)

lemma filterThrowing_Inr_iff:
  "filterThrowing p xs = Inr ys \<longleftrightarrow>
     (\<forall>x\<in>set xs. \<exists>b. p x = Inr b) \<and> ys = filter (\<lambda>x. p x = Inr True) xs"
proof (induction xs arbitrary: ys)
  case Nil
  then show ?case by auto
next
  case (Cons x xs)
  show ?case
  proof (cases "p x")
    case (Inl e)
    then show ?thesis by auto
  next
    case px: (Inr keep)
    show ?thesis
    proof (cases "filterThrowing p xs")
      case (Inl e)
      then have "\<not> (\<forall>x\<in>set xs. \<exists>b. p x = Inr b)"
        using Cons.IH [of "filter (\<lambda>x. p x = Inr True) xs"] by simp
      with px Inl show ?thesis by auto
    next
      case (Inr zs)
      then have "(\<forall>x\<in>set xs. \<exists>b. p x = Inr b) \<and> zs = filter (\<lambda>x. p x = Inr True) xs"
        using Cons.IH [of zs] by simp
      with px Inr show ?thesis by auto
    qed
  qed
qed

lemma filterThrowing_error:
  "x \<in> set xs \<Longrightarrow> p x = Inl e \<Longrightarrow> \<exists>e'. filterThrowing p xs = Inl e'"
  by (induction xs) (auto split: sum.splits)

subsection \<open>The search for a browser version\<close>

text \<open>
  The search \<open>execDigits\<close> agrees with the regular expression: it fails exactly
  when the literal is nowhere followed by a digit, and a group it returns is a
  non-empty run of digits that follows the literal in the tag and is not followed by
  a further digit.
\<close>

lemma execDigits_Some:
  assumes "execDigits lit t = Some ds"
  shows "ds \<noteq> [] \<and> list_all isDigit ds \<and>
         (\<exists>pre post. t = pre @ lit @ ds @ post \<and> (post = [] \<or> \<not> isDigit (hd post)))"
  using assms
proof (induction t)
  case Nil
  then show ?case by simp
next
  case (Cons c cs)
  let ?rest = "drop (length lit) (c # cs)"
  let ?ds = "takeWhile isDigit ?rest"
  show ?case
  proof (cases "prefix lit (c # cs) \<and> ?ds \<noteq> []")
    case True
    then have ds: "ds = ?ds" using Cons.prems by (simp add: Let_def)
    from True have t: "c # cs = lit @ ?rest"
      by (metis append_eq_conv_conj prefix_def)
    have rest: "?rest = ?ds @ dropWhile isDigit ?rest" by simp
    have post: "dropWhile isDigit ?rest = [] \<or> \<not> isDigit (hd (dropWhile isDigit ?rest))"
      using hd_dropWhile [of isDigit ?rest] by blast
    have "c # cs = [] @ lit @ ds @ dropWhile isDigit ?rest"
      using t rest ds by simp
    moreover have "list_all isDigit ds"
      unfolding ds list_all_iff by (auto dest: set_takeWhileD)
    ultimately have "\<exists>pre post. c # cs = pre @ lit @ ds @ post \<and> (post = [] \<or> \<not> isDigit (hd post))"
      using post by blast
    moreover have "ds \<noteq> []" using True ds by simp
    ultimately show ?thesis using \<open>list_all isDigit ds\<close> by simp
  next
    case False
    then have "execDigits lit cs = Some ds" using Cons.prems by (auto simp: Let_def)
    from Cons.IH [OF this] obtain pre post where
      "ds \<noteq> []" "list_all isDigit ds" "cs = pre @ lit @ ds @ post" "post = [] \<or> \<not> isDigit (hd post)"
      by blast
    then have "c # cs = (c # pre) @ lit @ ds @ post" by simp
    with \<open>ds \<noteq> []\<close> \<open>list_all isDigit ds\<close> \<open>post = [] \<or> \<not> isDigit (hd post)\<close>
    show ?thesis by blast
  qed
qed

lemma execDigits_None_iff:
  "execDigits lit t = None \<longleftrightarrow> \<not> (\<exists>pre d post. t = pre @ lit @ d # post \<and> isDigit d)"
proof (induction t)
  case Nil
  then show ?case by simp
next
  case (Cons c cs)
  let ?rest = "drop (length lit) (c # cs)"
  have here: "(prefix lit (c # cs) \<and> takeWhile isDigit ?rest \<noteq> []) \<longleftrightarrow>
              (\<exists>d post. c # cs = lit @ d # post \<and> isDigit d)"
  proof
    assume a: "prefix lit (c # cs) \<and> takeWhile isDigit ?rest \<noteq> []"
    then have t: "c # cs = lit @ ?rest" by (metis append_eq_conv_conj prefix_def)
    from a obtain d post where r: "?rest = d # post" by (cases ?rest) auto
    with a have "isDigit d" by (auto split: if_splits)
    with t r show "\<exists>d post. c # cs = lit @ d # post \<and> isDigit d" by metis
  next
    assume "\<exists>d post. c # cs = lit @ d # post \<and> isDigit d"
    then obtain d post where t: "c # cs = lit @ d # post" and d: "isDigit d" by blast
    then have "?rest = d # post" by (metis append_eq_conv_conj)
    with t d show "prefix lit (c # cs) \<and> takeWhile isDigit ?rest \<noteq> []"
      by (metis list.distinct(1) prefixI takeWhile.simps(2))
  qed
  have split: "(\<exists>pre d post. c # cs = pre @ lit @ d # post \<and> isDigit d) \<longleftrightarrow>
               (\<exists>d post. c # cs = lit @ d # post \<and> isDigit d) \<or>
               (\<exists>pre d post. cs = pre @ lit @ d # post \<and> isDigit d)"
  proof
    assume "\<exists>pre d post. c # cs = pre @ lit @ d # post \<and> isDigit d"
    then obtain pre d post where t: "c # cs = pre @ lit @ d # post" and d: "isDigit d" by blast
    show "(\<exists>d post. c # cs = lit @ d # post \<and> isDigit d) \<or>
          (\<exists>pre d post. cs = pre @ lit @ d # post \<and> isDigit d)"
    proof (cases pre)
      case Nil
      with t d show ?thesis by auto
    next
      case (Cons p ps)
      with t have "cs = ps @ lit @ d # post" by simp
      with d show ?thesis by blast
    qed
  next
    assume "(\<exists>d post. c # cs = lit @ d # post \<and> isDigit d) \<or>
            (\<exists>pre d post. cs = pre @ lit @ d # post \<and> isDigit d)"
    then show "\<exists>pre d post. c # cs = pre @ lit @ d # post \<and> isDigit d"
    proof
      assume "\<exists>d post. c # cs = lit @ d # post \<and> isDigit d"
      then show ?thesis by (metis append_Nil)
    next
      assume "\<exists>pre d post. cs = pre @ lit @ d # post \<and> isDigit d"
      then show ?thesis by (metis append_Cons)
    qed
  qed
  show ?case
    using Cons.IH here split by (auto simp: Let_def)
qed

lemma execDigits_nonempty: "execDigits lit t = Some ds \<Longrightarrow> ds \<noteq> []"
  using execDigits_Some by blast

lemma findChromeVersion_eq:
  "findChromeVersion t = map_option (\<lambda>ds. ''Google Chrome '' @ ds) (execDigits ''chrome'' t)"
  by (auto simp: findChromeVersion_def fullChromeVersion_def split: option.splits
           dest: execDigits_nonempty)

lemma findFirefoxVersion_eq:
  "findFirefoxVersion t = map_option (\<lambda>ds. ''Mozilla Firefox '' @ ds) (execDigits ''-ff'' t)"
  by (auto simp: findFirefoxVersion_def fullFirefoxVersion_def split: option.splits
           dest: execDigits_nonempty)

lemma findEdgeVersion_eq:
  "findEdgeVersion t = map_option (\<lambda>ds. ''Microsoft Edge '' @ ds) (execDigits ''-edge'' t)"
  by (auto simp: findEdgeVersion_def fullEdgeVersion_def split: option.splits
           dest: execDigits_nonempty)

lemma browserJob_noBrowser:
  \<open>noBrowser (tag i) \<Longrightarrow>
     browserJob i = Inl (Error (''Cannot find any browsers from image tag "'' @ tag i @ ''"''))\<close>
  by (simp add: browserJob_def noBrowser_def findChromeVersion_eq findFirefoxVersion_eq
        findEdgeVersion_eq js_or_def)

lemma browserJob_found: "\<not> noBrowser (tag i) \<Longrightarrow> \<exists>job. browserJob i = Inr job"
  by (auto simp: browserJob_def noBrowser_def findChromeVersion_eq findFirefoxVersion_eq
        findEdgeVersion_eq js_or_def Let_def)

lemma skipped_has_chrome:
  "t \<in> set browser_skipImages \<Longrightarrow> execDigits ''chrome'' t \<noteq> None"
proof -
  have "list_all (\<lambda>t. execDigits ''chrome'' t \<noteq> None) browser_skipImages"
    by code_simp
  then show "t \<in> set browser_skipImages \<Longrightarrow> execDigits ''chrome'' t \<noteq> None"
    by (simp add: list_all_iff)
qed

lemma noBrowser_included: "noBrowser (tag i) \<Longrightarrow> browser_isIncluded i"
  using skipped_has_chrome [of "tag i"]
  by (auto simp: browser_isIncluded_def browser_isSkipped_def noBrowser_def)

subsection \<open>Versions below the threshold\<close>

lemma parse_threshold:
  "semver_parse ''6.0.0'' = Some \<lparr>major = 6, minor = 0, patch = 0, prerelease = []\<rparr>"
  by code_simp

lemma compare_threshold:
  "semver_compare v \<lparr>major = 6, minor = 0, patch = 0, prerelease = []\<rparr> < 0 \<longleftrightarrow>
     major v < 6 \<or> (major v = 6 \<and> minor v = 0 \<and> patch v = 0 \<and> prerelease v \<noteq> [])"
  by (cases "prerelease v")
     (auto simp: semver_compare_def compareMain_def comparePre_def compareNat_def)

lemma included_isSkipped_cases:
  "included_isSkipped t =
    (case semver_parse t of
       None \<Rightarrow> Inl (TypeError (''Invalid Version: '' @ t))
     | Some v \<Rightarrow> Inr (major v < 6 \<or> (major v = 6 \<and> minor v = 0 \<and> patch v = 0 \<and> prerelease v \<noteq> [])))"
  by (simp add: included_isSkipped_def semver_lt_def parse_threshold compare_threshold
        split: option.splits)

lemma formIncludedWorkflow_error:
  assumes "i \<in> set images" and "semver_parse (tag i) = None"
  shows "\<exists>e. formIncludedWorkflow images = Inl e"
proof -
  have "included_isIncluded i = Inl (TypeError (''Invalid Version: '' @ tag i))"
    using assms(2) by (simp add: included_isIncluded_def included_isSkipped_cases)
  from filterThrowing_error [of i images included_isIncluded, OF assms(1) this]
  obtain e where "filterThrowing included_isIncluded images = Inl e" ..
  then show ?thesis by (simp add: formIncludedWorkflow_def includedYml_def)
qed

lemma included_isIncluded_True:
  "included_isIncluded i = Inr True \<longleftrightarrow> included_isSkipped (tag i) = Inr False"
  by (cases "included_isSkipped (tag i)") (simp_all add: included_isIncluded_def)

lemma included_isIncluded_Inr:
  "included_isIncluded i = Inr b \<Longrightarrow>
     included_isSkipped (tag i) = Inr True \<or> included_isSkipped (tag i) = Inr False"
  by (cases "included_isSkipped (tag i)") (auto simp: included_isIncluded_def)

subsection \<open>The workflows and the written file\<close>

lemma filter_base_isIncluded:
  "filter base_isIncluded xs = filter (\<lambda>i. tag i \<notin> set base_skipImages) xs"
  by (rule filter_cong) (simp_all add: base_isIncluded_def base_isSkipped_def)

lemma filter_browser_isIncluded:
  "filter browser_isIncluded xs = filter (\<lambda>i. tag i \<notin> set browser_skipImages) xs"
  by (rule filter_cong) (simp_all add: browser_isIncluded_def browser_isSkipped_def)

lemma formBrowserWorkflow_Inr_D:
  assumes "formBrowserWorkflow browserImages = Inr text"
  shows "\<exists>yml. text = browser_workflowName @ concat yml \<and>
     list_all2 (\<lambda>i job. browserJob i = Inr job)
       (filter (\<lambda>i. tag i \<notin> set browser_skipImages) browserImages) yml"
proof (cases "browserYml browserImages")
  case (Inl e)
  with assms show ?thesis by (simp add: formBrowserWorkflow_def)
next
  case (Inr yml)
  then have "list_all2 (\<lambda>i job. browserJob i = Inr job)
       (filter (\<lambda>i. tag i \<notin> set browser_skipImages) browserImages) yml"
    by (simp add: browserYml_def mapThrowing_Inr_iff filter_browser_isIncluded)
  moreover from assms Inr have "text = browser_workflowName @ concat yml"
    by (simp add: formBrowserWorkflow_def)
  ultimately show ?thesis by (intro exI conjI)
qed

lemma formIncludedWorkflow_Inr_D:
  assumes "formIncludedWorkflow images = Inr text"
  shows "\<exists>yml. text = included_workflowName @ concat yml \<and>
     list_all2 (\<lambda>i job. job = includedJob i)
       (filter (\<lambda>i. included_isSkipped (tag i) = Inr False) images) yml \<and>
     (\<forall>i\<in>set images.
        included_isSkipped (tag i) = Inr True \<or> included_isSkipped (tag i) = Inr False)"
proof (cases "filterThrowing included_isIncluded images")
  case (Inl e)
  with assms show ?thesis by (simp add: formIncludedWorkflow_def includedYml_def)
next
  case (Inr kept)
  then have kept: "kept = filter (\<lambda>i. included_isSkipped (tag i) = Inr False) images"
    and all: "\<forall>i\<in>set images. \<exists>b. included_isIncluded i = Inr b"
    by (simp_all add: filterThrowing_Inr_iff included_isIncluded_True)
  from all have verdicts: "\<forall>i\<in>set images.
        included_isSkipped (tag i) = Inr True \<or> included_isSkipped (tag i) = Inr False"
    using included_isIncluded_Inr by blast
  have jobs: "list_all2 (\<lambda>i job. job = includedJob i) kept (map includedJob kept)"
    by (simp add: list_all2_map2 list.rel_refl)
  from assms Inr have "text = included_workflowName @ concat (map includedJob kept)"
    by (simp add: formIncludedWorkflow_def includedYml_def)
  with jobs verdicts show ?thesis unfolding kept by (intro exI conjI)
qed

lemma writeConfigFile_success:
  assumes "formBrowserWorkflow browserImages = Inr browsers"
    and "formIncludedWorkflow includedImages = Inr included"
    and "''circle.yml'' \<notin> unwritable w"
  shows "writeConfigFile os baseImages browserImages includedImages w =
    (Inr (), console_log (Text ''generated circle.yml'')
       (w\<lparr>files := (files w)(''circle.yml'' \<mapsto>
          trim preamble @ EOL os @ formBaseWorkflow baseImages @ EOL os @ browsers @ EOL os @
          included)\<rparr>))"
  using assms by (simp add: writeConfigFile_def writeFileSync_def)

lemma writeConfigFile_Inr_D:
  assumes "writeConfigFile os baseImages browserImages includedImages w = (Inr (), w')"
  shows "\<exists>browsers included.
    formBrowserWorkflow browserImages = Inr browsers \<and>
    formIncludedWorkflow includedImages = Inr included \<and>
    ''circle.yml'' \<notin> unwritable w \<and>
    w' = console_log (Text ''generated circle.yml'')
       (w\<lparr>files := (files w)(''circle.yml'' \<mapsto>
          trim preamble @ EOL os @ formBaseWorkflow baseImages @ EOL os @ browsers @ EOL os @
          included)\<rparr>)"
proof (cases "formBrowserWorkflow browserImages")
  case (Inl e)
  with assms show ?thesis by (simp add: writeConfigFile_def)
next
  case br: (Inr browsers)
  show ?thesis
  proof (cases "formIncludedWorkflow includedImages")
    case (Inl e)
    with assms br show ?thesis by (simp add: writeConfigFile_def)
  next
    case inc: (Inr included)
    show ?thesis
    proof (cases "''circle.yml'' \<in> unwritable w")
      case True
      with assms br inc show ?thesis by (simp add: writeConfigFile_def writeFileSync_def)
    next
      case False
      with assms br inc show ?thesis
        by (simp add: writeConfigFile_def writeFileSync_def)
    qed
  qed
qed

lemma document_jobs:
  assumes "writeConfigFile os baseImages browserImages includedImages w = (Inr (), w')"
  shows "\<exists>yb yr yi.
    files w' ''circle.yml'' =
      Some (trim preamble @ EOL os @ base_workflowName @ concat yb @ EOL os @
            browser_workflowName @ concat yr @ EOL os @ included_workflowName @ concat yi) \<and>
    list_all2 (\<lambda>i job. job = baseJob i)
      (filter (\<lambda>i. tag i \<notin> set base_skipImages) baseImages) yb \<and>
    list_all2 (\<lambda>i job. browserJob i = Inr job)
      (filter (\<lambda>i. tag i \<notin> set browser_skipImages) browserImages) yr \<and>
    list_all2 (\<lambda>i job. job = includedJob i)
      (filter (\<lambda>i. included_isSkipped (tag i) = Inr False) includedImages) yi \<and>
    (\<forall>i\<in>set includedImages.
       included_isSkipped (tag i) = Inr True \<or> included_isSkipped (tag i) = Inr False)"
proof -
  from writeConfigFile_Inr_D [OF assms] obtain browsers included where
    br: "formBrowserWorkflow browserImages = Inr browsers" and
    inc: "formIncludedWorkflow includedImages = Inr included" and
    w': "w' = console_log (Text ''generated circle.yml'')
       (w\<lparr>files := (files w)(''circle.yml'' \<mapsto>
          trim preamble @ EOL os @ formBaseWorkflow baseImages @ EOL os @ browsers @ EOL os @
          included)\<rparr>)"
    by (elim exE conjE)
  from formBrowserWorkflow_Inr_D [OF br] obtain yr where
    yr: "browsers = browser_workflowName @ concat yr" and
    jr: "list_all2 (\<lambda>i job. browserJob i = Inr job)
      (filter (\<lambda>i. tag i \<notin> set browser_skipImages) browserImages) yr"
    by (elim exE conjE)
  from formIncludedWorkflow_Inr_D [OF inc] obtain yi where
    yi: "included = included_workflowName @ concat yi" and
    ji: "list_all2 (\<lambda>i job. job = includedJob i)
      (filter (\<lambda>i. included_isSkipped (tag i) = Inr False) includedImages) yi" and
    vi: "\<forall>i\<in>set includedImages.
       included_isSkipped (tag i) = Inr True \<or> included_isSkipped (tag i) = Inr False"
    by (elim exE conjE)
  have jb: "list_all2 (\<lambda>i job. job = baseJob i)
      (filter (\<lambda>i. tag i \<notin> set base_skipImages) baseImages) (baseYml baseImages)"
    by (simp add: baseYml_def filter_base_isIncluded list_all2_map2 list.rel_refl)
  have "files w' ''circle.yml'' =
      Some (trim preamble @ EOL os @ base_workflowName @ concat (baseYml baseImages) @ EOL os @
            browser_workflowName @ concat yr @ EOL os @ included_workflowName @ concat yi)"
    unfolding w' yr yi by (simp add: console_log_def formBaseWorkflow_def)
  with jb jr ji vi show ?thesis by (intro exI conjI)
qed

lemma writeConfigFile_invalid_included:
  assumes "i \<in> set includedImages" and "semver_parse (tag i) = None"
  shows "\<exists>e. writeConfigFile os baseImages browserImages includedImages w = (Inl e, w)"
proof -
  from formIncludedWorkflow_error [OF assms]
  obtain e where "formIncludedWorkflow includedImages = Inl e" ..
  then show ?thesis
    by (cases "formBrowserWorkflow browserImages") (simp_all add: writeConfigFile_def)
qed

text \<open>
  The text of a job block, spelled out: the callbacks of the three workflows return
  these lines for a tag, the browser block with one line per browser found.
\<close>

lemma baseJob_text:
  \<open>baseJob i =
     ''      - build-base-image:\<newline>'' @
     ''          name: "base '' @ tag i @ ''"\<newline>'' @
     ''          dockerTag: "'' @ tag i @ ''"\<newline>'' @
     (if tag i = ''12.0.0-libgbm'' \<or> tag i = ''manjaro-14.12.0''
      then ''          checkNodeVersion: false\<newline>'' else [])\<close>
  by (simp add: baseJob_def Let_def)

lemma browserJob_text:
  assumes "browserJob i = Inr job"
  shows \<open>job =
     ''      - build-browser-image:\<newline>'' @
     ''          name: "browsers '' @ tag i @ ''"\<newline>'' @
     ''          dockerTag: "'' @ tag i @ ''"\<newline>'' @
     (case execDigits ''chrome'' (tag i) of
        None \<Rightarrow> []
      | Some ds \<Rightarrow> ''          chromeVersion: "Google Chrome '' @ ds @ ''"\<newline>'') @
     (case execDigits ''-ff'' (tag i) of
        None \<Rightarrow> []
      | Some ds \<Rightarrow> ''          firefoxVersion: "Mozilla Firefox '' @ ds @ ''"\<newline>'') @
     (case execDigits ''-edge'' (tag i) of
        None \<Rightarrow> []
      | Some ds \<Rightarrow> ''          edgeVersion: "Microsoft Edge '' @ ds @ ''"\<newline>'')\<close>
proof -
  have c: "truthy (findChromeVersion (tag i)) \<longleftrightarrow> execDigits ''chrome'' (tag i) \<noteq> None"
    by (cases "execDigits ''chrome'' (tag i)") (simp_all add: findChromeVersion_eq)
  have f: "truthy (findFirefoxVersion (tag i)) \<longleftrightarrow> execDigits ''-ff'' (tag i) \<noteq> None"
    by (cases "execDigits ''-ff'' (tag i)") (simp_all add: findFirefoxVersion_eq)
  have e: "truthy (findEdgeVersion (tag i)) \<longleftrightarrow> execDigits ''-edge'' (tag i) \<noteq> None"
    by (cases "execDigits ''-edge'' (tag i)") (simp_all add: findEdgeVersion_eq)
  show ?thesis
  proof (cases "execDigits ''chrome'' (tag i)")
    case cn: None
    show ?thesis
    proof (cases "execDigits ''-ff'' (tag i)")
      case fn: None
      show ?thesis
      proof (cases "execDigits ''-edge'' (tag i)")
        case None
        with assms cn fn c f e show ?thesis
          by (simp add: browserJob_def Let_def js_or_def)
      next
        case (Some ds)
        with assms cn fn c f e show ?thesis
          by (simp add: browserJob_def Let_def js_or_def findEdgeVersion_eq)
      qed
    next
      case fs: (Some fds)
      show ?thesis
      proof (cases "execDigits ''-edge'' (tag i)")
        case None
        with assms cn fs c f e show ?thesis
          by (simp add: browserJob_def Let_def js_or_def findFirefoxVersion_eq)
      next
        case (Some ds)
        with assms cn fs c f e show ?thesis
          by (simp add: browserJob_def Let_def js_or_def findFirefoxVersion_eq
                findEdgeVersion_eq)
      qed
    qed
  next
    case cs: (Some cds)
    show ?thesis
    proof (cases "execDigits ''-ff'' (tag i)")
      case fn: None
      show ?thesis
      proof (cases "execDigits ''-edge'' (tag i)")
        case None
        with assms cs fn c f e show ?thesis
          by (simp add: browserJob_def Let_def js_or_def findChromeVersion_eq)
      next
        case (Some ds)
        with assms cs fn c f e show ?thesis
          by (simp add: browserJob_def Let_def js_or_def findChromeVersion_eq
                findEdgeVersion_eq)
      qed
    next
      case fs: (Some fds)
      show ?thesis
      proof (cases "execDigits ''-edge'' (tag i)")
        case None
        with assms cs fs c f e show ?thesis
          by (simp add: browserJob_def Let_def js_or_def findChromeVersion_eq
                findFirefoxVersion_eq)
      next
        case (Some ds)
        with assms cs fs c f e show ?thesis
          by (simp add: browserJob_def Let_def js_or_def findChromeVersion_eq
                findFirefoxVersion_eq findEdgeVersion_eq)
      qed
    qed
  qed
qed

lemma includedJob_text:
  \<open>includedJob i =
     ''      - build-included-image:\<newline>'' @
     ''          name: "included '' @ tag i @ ''"\<newline>'' @
     ''          dockerTag: "'' @ tag i @ ''"\<newline>''\<close>
  by (simp add: includedJob_def)

text \<open>
  The top level prints the three lists and calls \<^verbatim>\<open>writeConfigFile\<close>; an error
  of the included workflow reaches it before any file is written.
\<close>

lemma writeConfigFile_throws_before_write:
  assumes "formIncludedWorkflow includedImages = Inl ei"
  shows "\<exists>e. \<forall>w. writeConfigFile os baseImages browserImages includedImages w = (Inl e, w)"
proof (cases "formBrowserWorkflow browserImages")
  case (Inl eb)
  then have "\<forall>w. writeConfigFile os baseImages browserImages includedImages w = (Inl eb, w)"
    by (simp add: writeConfigFile_def)
  then show ?thesis ..
next
  case (Inr browsers)
  with assms
  have "\<forall>w. writeConfigFile os baseImages browserImages includedImages w = (Inl ei, w)"
    by (simp add: writeConfigFile_def)
  then show ?thesis ..
qed

lemma main_writeConfigFile:
  "main os basePaths browsersPaths includedPaths w =
     writeConfigFile os (map splitImageFolderName basePaths)
       (map splitImageFolderName browsersPaths) (map splitImageFolderName includedPaths)
       (w\<lparr>console := console w @
          [Text '' *** base images ***'', Images (map splitImageFolderName basePaths),
           Text '' *** browser images ***'', Images (map splitImageFolderName browsersPaths),
           Text '' *** included images ***'',
           Images (map splitImageFolderName includedPaths)]\<rparr>)"
  by (simp add: main_def Let_def console_log_def)

lemma main_invalid_included:
  assumes "p \<in> set includedPaths"
    and "semver_parse (tag (splitImageFolderName p)) = None"
  shows "\<exists>e w'. writeConfigFile os (map splitImageFolderName basePaths)
            (map splitImageFolderName browsersPaths)
            (map splitImageFolderName includedPaths) w = (Inl e, w) \<and>
          main os basePaths browsersPaths includedPaths w = (Inl e, w') \<and>
          files w' = files w"
proof -
  let ?logged = "w\<lparr>console := console w @
          [Text '' *** base images ***'', Images (map splitImageFolderName basePaths),
           Text '' *** browser images ***'', Images (map splitImageFolderName browsersPaths),
           Text '' *** included images ***'',
           Images (map splitImageFolderName includedPaths)]\<rparr>"
  from assms(1) have mem: "splitImageFolderName p \<in> set (map splitImageFolderName includedPaths)"
    by simp
  from formIncludedWorkflow_error [OF mem assms(2)]
  obtain ei where "formIncludedWorkflow (map splitImageFolderName includedPaths) = Inl ei" ..
  from writeConfigFile_throws_before_write [OF this]
  obtain e where thrown: "\<forall>w. writeConfigFile os (map splitImageFolderName basePaths)
            (map splitImageFolderName browsersPaths)
            (map splitImageFolderName includedPaths) w = (Inl e, w)" ..
  from thrown have a: "writeConfigFile os (map splitImageFolderName basePaths)
            (map splitImageFolderName browsersPaths)
            (map splitImageFolderName includedPaths) w = (Inl e, w)" ..
  from thrown have "writeConfigFile os (map splitImageFolderName basePaths)
            (map splitImageFolderName browsersPaths)
            (map splitImageFolderName includedPaths) ?logged = (Inl e, ?logged)" ..
  then have b: "main os basePaths browsersPaths includedPaths w = (Inl e, ?logged)"
    by (simp only: main_writeConfigFile)
  have c: "files ?logged = files w" by simp
  from a b c show ?thesis by (intro exI conjI)
qed

text \<open>
  A run on two base folders, two browser folders and two included folders, one of
  each skipped, in any state in which \<^verbatim>\<open>circle.yml\<close> can be written.
\<close>

lemma example_browsers:
  \<open>formBrowserWorkflow
     [\<lparr>name = ''browsers'', tag = ''chrome69''\<rparr>,
      \<lparr>name = ''browsers'', tag = ''node14.7.0-chrome84''\<rparr>] =
   Inr (browser_workflowName @
        ''      - build-browser-image:\<newline>'' @
        ''          name: "browsers node14.7.0-chrome84"\<newline>'' @
        ''          dockerTag: "node14.7.0-chrome84"\<newline>'' @
        ''          chromeVersion: "Google Chrome 84"\<newline>'')\<close>
  by code_simp

lemma example_included:
  \<open>formIncludedWorkflow
     [\<lparr>name = ''included'', tag = ''5.4.0''\<rparr>, \<lparr>name = ''included'', tag = ''6.0.0''\<rparr>] =
   Inr (included_workflowName @
        ''      - build-included-image:\<newline>'' @
        ''          name: "included 6.0.0"\<newline>'' @
        ''          dockerTag: "6.0.0"\<newline>'')\<close>
  by code_simp

lemma example_run:
  assumes "''circle.yml'' \<notin> unwritable w"
  shows \<open>writeConfigFile Posix
     [\<lparr>name = ''base'', tag = ''10.0.0''\<rparr>, \<lparr>name = ''base'', tag = ''14.7.0''\<rparr>]
     [\<lparr>name = ''browsers'', tag = ''chrome69''\<rparr>,
      \<lparr>name = ''browsers'', tag = ''node14.7.0-chrome84''\<rparr>]
     [\<lparr>name = ''included'', tag = ''5.4.0''\<rparr>, \<lparr>name = ''included'', tag = ''6.0.0''\<rparr>] w =
    (Inr (), console_log (Text ''generated circle.yml'')
       (w\<lparr>files := (files w)(''circle.yml'' \<mapsto>
          trim preamble @ EOL Posix @
          formBaseWorkflow
            [\<lparr>name = ''base'', tag = ''10.0.0''\<rparr>, \<lparr>name = ''base'', tag = ''14.7.0''\<rparr>] @
          EOL Posix @
          (browser_workflowName @
           ''      - build-browser-image:\<newline>'' @
           ''          name: "browsers node14.7.0-chrome84"\<newline>'' @
           ''          dockerTag: "node14.7.0-chrome84"\<newline>'' @
           ''          chromeVersion: "Google Chrome 84"\<newline>'') @
          EOL Posix @
          (included_workflowName @
           ''      - build-included-image:\<newline>'' @
           ''          name: "included 6.0.0"\<newline>'' @
           ''          dockerTag: "6.0.0"\<newline>''))\<rparr>))\<close>
  by (rule writeConfigFile_success [OF example_browsers example_included assms])

section \<open>The claims\<close>

text \<open>
  C1. Whenever a document is generated (\<^verbatim>\<open>writeConfigFile\<close> returns), the text
  written to \<^verbatim>\<open>circle.yml\<close> holds, after each workflow header, exactly the job
  blocks of the tags that the category's skip predicate does not match, one block per
  listed tag and in the order of the input, and no block for a skipped tag. Each block
  is spelled out: the job line, the \<^verbatim>\<open>name\<close> and \<^verbatim>\<open>dockerTag\<close> lines with the tag,
  and the parameter lines of the category. (A folder scan lists every tag once.)
\<close>

theorem one_job_per_unskipped_tag:
  assumes "writeConfigFile os baseImages browserImages includedImages w = (Inr (), w')"
  shows \<open>\<exists>yb yr yi.
    files w' ''circle.yml'' =
      Some (trim preamble @ EOL os @
            ''  build-base-images:\<newline>'' @ ''    jobs:\<newline>'' @ concat yb @ EOL os @
            ''  build-browser-images:\<newline>'' @ ''    jobs:\<newline>'' @ concat yr @ EOL os @
            ''  build-included-images:\<newline>'' @ ''    jobs:\<newline>'' @ concat yi) \<and>
    list_all2
      (\<lambda>i job. job =
         ''      - build-base-image:\<newline>'' @
         ''          name: "base '' @ tag i @ ''"\<newline>'' @
         ''          dockerTag: "'' @ tag i @ ''"\<newline>'' @
         (if tag i = ''12.0.0-libgbm'' \<or> tag i = ''manjaro-14.12.0''
          then ''          checkNodeVersion: false\<newline>'' else []))
      (filter (\<lambda>i. tag i \<notin> set base_skipImages) baseImages) yb \<and>
    list_all2
      (\<lambda>i job. job =
         ''      - build-browser-image:\<newline>'' @
         ''          name: "browsers '' @ tag i @ ''"\<newline>'' @
         ''          dockerTag: "'' @ tag i @ ''"\<newline>'' @
         (case execDigits ''chrome'' (tag i) of
            None \<Rightarrow> []
          | Some ds \<Rightarrow> ''          chromeVersion: "Google Chrome '' @ ds @ ''"\<newline>'') @
         (case execDigits ''-ff'' (tag i) of
            None \<Rightarrow> []
          | Some ds \<Rightarrow> ''          firefoxVersion: "Mozilla Firefox '' @ ds @ ''"\<newline>'') @
         (case execDigits ''-edge'' (tag i) of
            None \<Rightarrow> []
          | Some ds \<Rightarrow> ''          edgeVersion: "Microsoft Edge '' @ ds @ ''"\<newline>''))
      (filter (\<lambda>i. tag i \<notin> set browser_skipImages) browserImages) yr \<and>
    list_all2
      (\<lambda>i job. job =
         ''      - build-included-image:\<newline>'' @
         ''          name: "included '' @ tag i @ ''"\<newline>'' @
         ''          dockerTag: "'' @ tag i @ ''"\<newline>'')
      (filter (\<lambda>i. included_isSkipped (tag i) = Inr False) includedImages) yi \<and>
    (\<forall>i\<in>set includedImages.
       included_isSkipped (tag i) = Inr True \<or> included_isSkipped (tag i) = Inr False)\<close>
proof -
  from document_jobs [OF assms] obtain yb yr yi where
    doc: "files w' ''circle.yml'' =
      Some (trim preamble @ EOL os @ base_workflowName @ concat yb @ EOL os @
            browser_workflowName @ concat yr @ EOL os @ included_workflowName @ concat yi)"
    and jb: "list_all2 (\<lambda>i job. job = baseJob i)
      (filter (\<lambda>i. tag i \<notin> set base_skipImages) baseImages) yb"
    and jr: "list_all2 (\<lambda>i job. browserJob i = Inr job)
      (filter (\<lambda>i. tag i \<notin> set browser_skipImages) browserImages) yr"
    and ji: "list_all2 (\<lambda>i job. job = includedJob i)
      (filter (\<lambda>i. included_isSkipped (tag i) = Inr False) includedImages) yi"
    and vi: "\<forall>i\<in>set includedImages.
       included_isSkipped (tag i) = Inr True \<or> included_isSkipped (tag i) = Inr False"
    by (elim exE conjE)
  note doc' = doc [unfolded base_workflowName_def browser_workflowName_def
      included_workflowName_def append_assoc]
  note jb' = jb [unfolded baseJob_text]
  note jr' = list_all2_mono [OF jr browserJob_text]
  note ji' = ji [unfolded includedJob_text]
  from doc' jb' jr' ji' vi show ?thesis by (intro exI conjI)
qed

text \<open>
  A run with one skipped and one unskipped tag in each category: the file holds the
  preamble and one job block under each of the three headers.
\<close>

theorem one_job_per_unskipped_tag_witness:
  \<open>\<exists>w'.
     writeConfigFile Posix
       [\<lparr>name = ''base'', tag = ''10.0.0''\<rparr>, \<lparr>name = ''base'', tag = ''14.7.0''\<rparr>]
       [\<lparr>name = ''browsers'', tag = ''chrome69''\<rparr>,
        \<lparr>name = ''browsers'', tag = ''node14.7.0-chrome84''\<rparr>]
       [\<lparr>name = ''included'', tag = ''5.4.0''\<rparr>, \<lparr>name = ''included'', tag = ''6.0.0''\<rparr>]
       \<lparr>files = Map.empty, unwritable = {}, console = []\<rparr> = (Inr (), w') \<and>
     files w' ''circle.yml'' =
       Some (trim preamble @ ''\<newline>'' @
             ''  build-base-images:\<newline>'' @
             ''    jobs:\<newline>'' @
             ''      - build-base-image:\<newline>'' @
             ''          name: "base 14.7.0"\<newline>'' @
             ''          dockerTag: "14.7.0"\<newline>'' @
             ''\<newline>'' @
             ''  build-browser-images:\<newline>'' @
             ''    jobs:\<newline>'' @
             ''      - build-browser-image:\<newline>'' @
             ''          name: "browsers node14.7.0-chrome84"\<newline>'' @
             ''          dockerTag: "node14.7.0-chrome84"\<newline>'' @
             ''          chromeVersion: "Google Chrome 84"\<newline>'' @
             ''\<newline>'' @
             ''  build-included-images:\<newline>'' @
             ''    jobs:\<newline>'' @
             ''      - build-included-image:\<newline>'' @
             ''          name: "included 6.0.0"\<newline>'' @
             ''          dockerTag: "6.0.0"\<newline>'')\<close>
proof -
  let ?w = "\<lparr>files = Map.empty, unwritable = {}, console = []\<rparr>"
  have ok: "''circle.yml'' \<notin> unwritable ?w" by simp
  note run = example_run [OF ok]
  have fb: "filter (\<lambda>i. tag i \<notin> set base_skipImages)
      [\<lparr>name = ''base'', tag = ''10.0.0''\<rparr>, \<lparr>name = ''base'', tag = ''14.7.0''\<rparr>] =
      [\<lparr>name = ''base'', tag = ''14.7.0''\<rparr>]"
    by (simp add: base_skipImages_def)
  have fr: "filter (\<lambda>i. tag i \<notin> set browser_skipImages)
      [\<lparr>name = ''browsers'', tag = ''chrome69''\<rparr>,
       \<lparr>name = ''browsers'', tag = ''node14.7.0-chrome84''\<rparr>] =
      [\<lparr>name = ''browsers'', tag = ''node14.7.0-chrome84''\<rparr>]"
    by (simp add: browser_skipImages_def)
  have s5: "included_isSkipped ''5.4.0'' = Inr True" by code_simp
  have s6: "included_isSkipped ''6.0.0'' = Inr False" by code_simp
  have fi: "filter (\<lambda>i. included_isSkipped (tag i) = Inr False)
      [\<lparr>name = ''included'', tag = ''5.4.0''\<rparr>, \<lparr>name = ''included'', tag = ''6.0.0''\<rparr>] =
      [\<lparr>name = ''included'', tag = ''6.0.0''\<rparr>]"
    by (simp add: s5 s6)
  have xc: "execDigits ''chrome'' ''node14.7.0-chrome84'' = Some ''84''" by code_simp
  have xf: "execDigits ''-ff'' ''node14.7.0-chrome84'' = None" by code_simp
  have xe: "execDigits ''-edge'' ''node14.7.0-chrome84'' = None" by code_simp
  from one_job_per_unskipped_tag [OF run, unfolded fb fr fi]
  obtain yb yr yi where
    doc: "files (console_log (Text ''generated circle.yml'')
       (?w\<lparr>files := (files ?w)(''circle.yml'' \<mapsto>
          trim preamble @ EOL Posix @
          formBaseWorkflow
            [\<lparr>name = ''base'', tag = ''10.0.0''\<rparr>, \<lparr>name = ''base'', tag = ''14.7.0''\<rparr>] @
          EOL Posix @
          (browser_workflowName @
           ''      - build-browser-image:\<newline>'' @
           ''          name: \"browsers node14.7.0-chrome84\"\<newline>'' @
           ''          dockerTag: \"node14.7.0-chrome84\"\<newline>'' @
           ''          chromeVersion: \"Google Chrome 84\"\<newline>'') @
          EOL Posix @
          (included_workflowName @
           ''      - build-included-image:\<newline>'' @
           ''          name: \"included 6.0.0\"\<newline>'' @
           ''          dockerTag: \"6.0.0\"\<newline>''))\<rparr>)) ''circle.yml'' =
      Some (trim preamble @ EOL Posix @
            ''  build-base-images:\<newline>'' @ ''    jobs:\<newline>'' @ concat yb @ EOL Posix @
            ''  build-browser-images:\<newline>'' @ ''    jobs:\<newline>'' @ concat yr @ EOL Posix @
            ''  build-included-images:\<newline>'' @ ''    jobs:\<newline>'' @ concat yi)"
    and jb: "list_all2
      (\<lambda>i job. job =
         ''      - build-base-image:\<newline>'' @
         ''          name: \"base '' @ tag i @ ''\"\<newline>'' @
         ''          dockerTag: \"'' @ tag i @ ''\"\<newline>'' @
         (if tag i = ''12.0.0-libgbm'' \<or> tag i = ''manjaro-14.12.0''
          then ''          checkNodeVersion: false\<newline>'' else []))
      [\<lparr>name = ''base'', tag = ''14.7.0''\<rparr>] yb"
    and jr: "list_all2
      (\<lambda>i job. job =
         ''      - build-browser-image:\<newline>'' @
         ''          name: \"browsers '' @ tag i @ ''\"\<newline>'' @
         ''          dockerTag: \"'' @ tag i @ ''\"\<newline>'' @
         (case execDigits ''chrome'' (tag i) of
            None \<Rightarrow> []
          | Some ds \<Rightarrow> ''          chromeVersion: \"Google Chrome '' @ ds @ ''\"\<newline>'') @
         (case execDigits ''-ff'' (tag i) of
            None \<Rightarrow> []
          | Some ds \<Rightarrow> ''          firefoxVersion: \"Mozilla Firefox '' @ ds @ ''\"\<newline>'') @
         (case execDigits ''-edge'' (tag i) of
            None \<Rightarrow> []
          | Some ds \<Rightarrow> ''          edgeVersion: \"Microsoft Edge '' @ ds @ ''\"\<newline>''))
      [\<lparr>name = ''browsers'', tag = ''node14.7.0-chrome84''\<rparr>] yr"
    and ji: "list_all2
      (\<lambda>i job. job =
         ''      - build-included-image:\<newline>'' @
         ''          name: \"included '' @ tag i @ ''\"\<newline>'' @
         ''          dockerTag: \"'' @ tag i @ ''\"\<newline>'')
      [\<lparr>name = ''included'', tag = ''6.0.0''\<rparr>] yi"
    by (elim exE conjE)
  from jb have yb: "yb = [''      - build-base-image:\<newline>'' @
         ''          name: \"base 14.7.0\"\<newline>'' @
         ''          dockerTag: \"14.7.0\"\<newline>'']"
    by (simp add: list_all2_Cons1)
  from jr have yr: "yr = [''      - build-browser-image:\<newline>'' @
         ''          name: \"browsers node14.7.0-chrome84\"\<newline>'' @
         ''          dockerTag: \"node14.7.0-chrome84\"\<newline>'' @
         ''          chromeVersion: \"Google Chrome 84\"\<newline>'']"
    by (simp add: list_all2_Cons1 xc xf xe del: execDigits.simps)
  from ji have yi: "yi = [''      - build-included-image:\<newline>'' @
         ''          name: \"included 6.0.0\"\<newline>'' @
         ''          dockerTag: \"6.0.0\"\<newline>'']"
    by (simp add: list_all2_Cons1)
  from doc have "files (console_log (Text ''generated circle.yml'')
       (?w\<lparr>files := (files ?w)(''circle.yml'' \<mapsto>
          trim preamble @ EOL Posix @
          formBaseWorkflow
            [\<lparr>name = ''base'', tag = ''10.0.0''\<rparr>, \<lparr>name = ''base'', tag = ''14.7.0''\<rparr>] @
          EOL Posix @
          (browser_workflowName @
           ''      - build-browser-image:\<newline>'' @
           ''          name: \"browsers node14.7.0-chrome84\"\<newline>'' @
           ''          dockerTag: \"node14.7.0-chrome84\"\<newline>'' @
           ''          chromeVersion: \"Google Chrome 84\"\<newline>'') @
          EOL Posix @
          (included_workflowName @
           ''      - build-included-image:\<newline>'' @
           ''          name: \"included 6.0.0\"\<newline>'' @
           ''          dockerTag: \"6.0.0\"\<newline>''))\<rparr>)) ''circle.yml'' =
       Some (trim preamble @ ''\<newline>'' @
             ''  build-base-images:\<newline>'' @
             ''    jobs:\<newline>'' @
             ''      - build-base-image:\<newline>'' @
             ''          name: \"base 14.7.0\"\<newline>'' @
             ''          dockerTag: \"14.7.0\"\<newline>'' @
             ''\<newline>'' @
             ''  build-browser-images:\<newline>'' @
             ''    jobs:\<newline>'' @
             ''      - build-browser-image:\<newline>'' @
             ''          name: \"browsers node14.7.0-chrome84\"\<newline>'' @
             ''          dockerTag: \"node14.7.0-chrome84\"\<newline>'' @
             ''          chromeVersion: \"Google Chrome 84\"\<newline>'' @
             ''\<newline>'' @
             ''  build-included-images:\<newline>'' @
             ''    jobs:\<newline>'' @
             ''      - build-included-image:\<newline>'' @
             ''          name: \"included 6.0.0\"\<newline>'' @
             ''          dockerTag: \"6.0.0\"\<newline>'')"
    unfolding yb yr yi by simp
  with run show ?thesis by (intro exI conjI)
qed

text \<open>
  C2, as the spec states it, fails on the code. With a first tag that is not in the
  base skip list (\<^verbatim>\<open>14.7.0\<close>; \<^verbatim>\<open>10.0.0\<close> itself is an entry of the list) the
  folders give two base job blocks, but the second, that of \<^verbatim>\<open>12.0.0-libgbm\<close>,
  does not lack the version-check parameter: it contains \<^verbatim>\<open>checkNodeVersion\<close>. So
  does the block of \<^verbatim>\<open>12.0.0-libgbm\<close> in the output for the claim's own two tags.
\<close>

theorem second_base_job_counterexample:
  "''14.7.0'' \<notin> set base_skipImages \<and> ''12.0.0-libgbm'' \<notin> set base_skipImages \<and>
   length (baseYml [\<lparr>name = ''base'', tag = ''14.7.0''\<rparr>,
                    \<lparr>name = ''base'', tag = ''12.0.0-libgbm''\<rparr>]) = 2 \<and>
   sublist ''checkNodeVersion''
     (baseYml [\<lparr>name = ''base'', tag = ''14.7.0''\<rparr>,
               \<lparr>name = ''base'', tag = ''12.0.0-libgbm''\<rparr>] ! 1) \<and>
   sublist ''checkNodeVersion''
     (last (baseYml [\<lparr>name = ''base'', tag = ''10.0.0''\<rparr>,
                     \<lparr>name = ''base'', tag = ''12.0.0-libgbm''\<rparr>]))"
proof -
  have 1: "''14.7.0'' \<notin> set base_skipImages" by (simp add: base_skipImages_def)
  have 2: "''12.0.0-libgbm'' \<notin> set base_skipImages" by (simp add: base_skipImages_def)
  have 3: "length (baseYml [\<lparr>name = ''base'', tag = ''14.7.0''\<rparr>,
                    \<lparr>name = ''base'', tag = ''12.0.0-libgbm''\<rparr>]) = 2"
    by (simp add: baseYml_def base_isIncluded_def base_isSkipped_def 1 2)
  have 4: "sublist ''checkNodeVersion''
     (baseYml [\<lparr>name = ''base'', tag = ''14.7.0''\<rparr>,
               \<lparr>name = ''base'', tag = ''12.0.0-libgbm''\<rparr>] ! 1)"
    by code_simp
  have 5: "sublist ''checkNodeVersion''
     (last (baseYml [\<lparr>name = ''base'', tag = ''10.0.0''\<rparr>,
                     \<lparr>name = ''base'', tag = ''12.0.0-libgbm''\<rparr>]))"
    by code_simp
  show ?thesis by (rule conjI [OF 1 conjI [OF 2 conjI [OF 3 conjI [OF 4 5]]]])
qed

text \<open>
  C2, amended. For a base tag \<open>t\<close> that is not in the base skip list, followed by
  \<^verbatim>\<open>12.0.0-libgbm\<close>, the base workflow holds exactly two job blocks, and the second
  ends with the line \<^verbatim>\<open>checkNodeVersion: false\<close>. The tag \<^verbatim>\<open>10.0.0\<close> is in the skip
  list of the code, \<^verbatim>\<open>12.0.0-libgbm\<close> is not.
\<close>

theorem two_base_jobs_second_with_check_line:
  assumes "t \<notin> set base_skipImages"
  shows \<open>''10.0.0'' \<in> set base_skipImages \<and> ''12.0.0-libgbm'' \<notin> set base_skipImages \<and>
    baseYml [\<lparr>name = n, tag = t\<rparr>, \<lparr>name = m, tag = ''12.0.0-libgbm''\<rparr>] =
      [''      - build-base-image:\<newline>'' @
       ''          name: "base '' @ t @ ''"\<newline>'' @
       ''          dockerTag: "'' @ t @ ''"\<newline>'' @
       (if t = ''12.0.0-libgbm'' \<or> t = ''manjaro-14.12.0''
        then ''          checkNodeVersion: false\<newline>'' else []),
       ''      - build-base-image:\<newline>'' @
       ''          name: "base 12.0.0-libgbm"\<newline>'' @
       ''          dockerTag: "12.0.0-libgbm"\<newline>'' @
       ''          checkNodeVersion: false\<newline>''] \<and>
    formBaseWorkflow [\<lparr>name = n, tag = t\<rparr>, \<lparr>name = m, tag = ''12.0.0-libgbm''\<rparr>] =
      ''  build-base-images:\<newline>'' @
      ''    jobs:\<newline>'' @
      ''      - build-base-image:\<newline>'' @
      ''          name: "base '' @ t @ ''"\<newline>'' @
      ''          dockerTag: "'' @ t @ ''"\<newline>'' @
      (if t = ''12.0.0-libgbm'' \<or> t = ''manjaro-14.12.0''
       then ''          checkNodeVersion: false\<newline>'' else []) @
      ''      - build-base-image:\<newline>'' @
      ''          name: "base 12.0.0-libgbm"\<newline>'' @
      ''          dockerTag: "12.0.0-libgbm"\<newline>'' @
      ''          checkNodeVersion: false\<newline>''\<close>
proof -
  have 1: "''10.0.0'' \<in> set base_skipImages" by (simp add: base_skipImages_def)
  have 2: "''12.0.0-libgbm'' \<notin> set base_skipImages" by (simp add: base_skipImages_def)
  have 3: \<open>baseYml [\<lparr>name = n, tag = t\<rparr>, \<lparr>name = m, tag = ''12.0.0-libgbm''\<rparr>] =
      [''      - build-base-image:\<newline>'' @
       ''          name: "base '' @ t @ ''"\<newline>'' @
       ''          dockerTag: "'' @ t @ ''"\<newline>'' @
       (if t = ''12.0.0-libgbm'' \<or> t = ''manjaro-14.12.0''
        then ''          checkNodeVersion: false\<newline>'' else []),
       ''      - build-base-image:\<newline>'' @
       ''          name: "base 12.0.0-libgbm"\<newline>'' @
       ''          dockerTag: "12.0.0-libgbm"\<newline>'' @
       ''          checkNodeVersion: false\<newline>'']\<close>
    using assms 2 by (simp add: baseYml_def base_isIncluded_def base_isSkipped_def baseJob_text)
  have 4: \<open>formBaseWorkflow [\<lparr>name = n, tag = t\<rparr>, \<lparr>name = m, tag = ''12.0.0-libgbm''\<rparr>] =
      ''  build-base-images:\<newline>'' @
      ''    jobs:\<newline>'' @
      ''      - build-base-image:\<newline>'' @
      ''          name: "base '' @ t @ ''"\<newline>'' @
      ''          dockerTag: "'' @ t @ ''"\<newline>'' @
      (if t = ''12.0.0-libgbm'' \<or> t = ''manjaro-14.12.0''
       then ''          checkNodeVersion: false\<newline>'' else []) @
      ''      - build-base-image:\<newline>'' @
      ''          name: "base 12.0.0-libgbm"\<newline>'' @
      ''          dockerTag: "12.0.0-libgbm"\<newline>'' @
      ''          checkNodeVersion: false\<newline>''\<close>
    unfolding formBaseWorkflow_def 3 by (simp add: base_workflowName_def)
  show ?thesis by (rule conjI [OF 1 conjI [OF 2 conjI [OF 3 4]]])
qed

text \<open>
  The folders \<^verbatim>\<open>14.7.0\<close> and \<^verbatim>\<open>12.0.0-libgbm\<close>.
\<close>

theorem two_base_jobs_second_with_check_line_witness:
  \<open>''14.7.0'' \<notin> set base_skipImages \<and>
   formBaseWorkflow [\<lparr>name = ''base'', tag = ''14.7.0''\<rparr>,
                     \<lparr>name = ''base'', tag = ''12.0.0-libgbm''\<rparr>] =
      ''  build-base-images:\<newline>'' @
      ''    jobs:\<newline>'' @
      ''      - build-base-image:\<newline>'' @
      ''          name: "base 14.7.0"\<newline>'' @
      ''          dockerTag: "14.7.0"\<newline>'' @
      ''      - build-base-image:\<newline>'' @
      ''          name: "base 12.0.0-libgbm"\<newline>'' @
      ''          dockerTag: "12.0.0-libgbm"\<newline>'' @
      ''          checkNodeVersion: false\<newline>''\<close>
proof -
  have 1: "''14.7.0'' \<notin> set base_skipImages" by (simp add: base_skipImages_def)
  note t = two_base_jobs_second_with_check_line
    [OF 1, of "''base''" "''base''", THEN conjunct2, THEN conjunct2, THEN conjunct2]
  from t have \<open>formBaseWorkflow [\<lparr>name = ''base'', tag = ''14.7.0''\<rparr>,
                     \<lparr>name = ''base'', tag = ''12.0.0-libgbm''\<rparr>] =
      ''  build-base-images:\<newline>'' @
      ''    jobs:\<newline>'' @
      ''      - build-base-image:\<newline>'' @
      ''          name: "base 14.7.0"\<newline>'' @
      ''          dockerTag: "14.7.0"\<newline>'' @
      ''      - build-base-image:\<newline>'' @
      ''          name: "base 12.0.0-libgbm"\<newline>'' @
      ''          dockerTag: "12.0.0-libgbm"\<newline>'' @
      ''          checkNodeVersion: false\<newline>''\<close>
    by simp
  with 1 show ?thesis by (rule conjI)
qed

text \<open>
  C3, as the spec states it, fails on the code: the block of \<^verbatim>\<open>12.0.0-libgbm\<close>
  does contain the parameter \<^verbatim>\<open>checkNodeVersion\<close>, and the block of a base tag that
  is neither skipped nor one of the two custom tags, such as \<^verbatim>\<open>14.7.0\<close>, does not.
\<close>

theorem version_check_parameter_counterexample:
  "sublist ''checkNodeVersion'' (baseJob \<lparr>name = ''base'', tag = ''12.0.0-libgbm''\<rparr>) \<and>
   ''14.7.0'' \<notin> set base_skipImages \<and>
   \<not> sublist ''checkNodeVersion'' (baseJob \<lparr>name = ''base'', tag = ''14.7.0''\<rparr>)"
proof -
  have 1: "sublist ''checkNodeVersion'' (baseJob \<lparr>name = ''base'', tag = ''12.0.0-libgbm''\<rparr>)"
    by code_simp
  have 2: "''14.7.0'' \<notin> set base_skipImages"
    by (simp add: base_skipImages_def)
  have 3: "\<not> sublist ''checkNodeVersion'' (baseJob \<lparr>name = ''base'', tag = ''14.7.0''\<rparr>)"
    by code_simp
  show ?thesis by (rule conjI [OF 1 conjI [OF 2 3]])
qed

text \<open>
  C3, amended. The job blocks of exactly the tags \<^verbatim>\<open>12.0.0-libgbm\<close> and
  \<^verbatim>\<open>manjaro-14.12.0\<close> end with the line \<^verbatim>\<open>checkNodeVersion: false\<close>, which
  switches the version check off; the block of every other base tag is the
  \<^verbatim>\<open>build-base-image\<close>, \<^verbatim>\<open>name\<close> and \<^verbatim>\<open>dockerTag\<close> lines alone, so that the
  default of the job applies.
\<close>

theorem check_line_marks_the_two_custom_tags:
  \<open>(suffix ''          checkNodeVersion: false\<newline>'' (baseJob i) \<longleftrightarrow>
      tag i = ''12.0.0-libgbm'' \<or> tag i = ''manjaro-14.12.0'') \<and>
   baseJob i =
     ''      - build-base-image:\<newline>'' @
     ''          name: "base '' @ tag i @ ''"\<newline>'' @
     ''          dockerTag: "'' @ tag i @ ''"\<newline>'' @
     (if tag i = ''12.0.0-libgbm'' \<or> tag i = ''manjaro-14.12.0''
      then ''          checkNodeVersion: false\<newline>'' else [])\<close>
proof (rule conjI)
  show "suffix ''          checkNodeVersion: false\<newline>'' (baseJob i) \<longleftrightarrow>
      tag i = ''12.0.0-libgbm'' \<or> tag i = ''manjaro-14.12.0''"
  proof (cases "tag i = ''12.0.0-libgbm'' \<or> tag i = ''manjaro-14.12.0''")
    case True
    then have "baseJob i =
        (''      - build-base-image:\<newline>'' @ ''          name: \"base '' @ tag i @ ''\"\<newline>'' @
         ''          dockerTag: \"'' @ tag i @ ''\"\<newline>'') @ ''          checkNodeVersion: false\<newline>''"
      by (simp add: baseJob_def Let_def)
    then have "suffix ''          checkNodeVersion: false\<newline>'' (baseJob i)"
      by (simp only: suffix_def) (rule exI, rule refl)
    with True show ?thesis by simp
  next
    case False
    then have "rev (baseJob i) =
        CHR ''\<newline>'' # CHR 0x22 # rev (tag i) @ rev (''      - build-base-image:\<newline>'' @
           ''          name: \"base '' @ tag i @ ''\"\<newline>'' @ ''          dockerTag: \"'')"
      by (simp add: baseJob_def Let_def)
    then have "\<not> suffix ''          checkNodeVersion: false\<newline>'' (baseJob i)"
      by (simp add: suffix_to_prefix)
    with False show ?thesis by simp
  qed
next
  show \<open>baseJob i =
     ''      - build-base-image:\<newline>'' @
     ''          name: "base '' @ tag i @ ''"\<newline>'' @
     ''          dockerTag: "'' @ tag i @ ''"\<newline>'' @
     (if tag i = ''12.0.0-libgbm'' \<or> tag i = ''manjaro-14.12.0''
      then ''          checkNodeVersion: false\<newline>'' else [])\<close>
    by (simp add: baseJob_def Let_def)
qed

text \<open>
  The block of \<^verbatim>\<open>manjaro-14.12.0\<close> ends with the line, the block of
  \<^verbatim>\<open>14.7.0\<close> does not.
\<close>

theorem check_line_marks_the_two_custom_tags_witness:
  "suffix ''          checkNodeVersion: false\<newline>''
     (baseJob \<lparr>name = ''base'', tag = ''manjaro-14.12.0''\<rparr>) \<and>
   \<not> suffix ''          checkNodeVersion: false\<newline>''
     (baseJob \<lparr>name = ''base'', tag = ''14.7.0''\<rparr>)"
  using
    check_line_marks_the_two_custom_tags
      [of "\<lparr>name = ''base'', tag = ''manjaro-14.12.0''\<rparr>", THEN conjunct1]
    check_line_marks_the_two_custom_tags
      [of "\<lparr>name = ''base'', tag = ''14.7.0''\<rparr>", THEN conjunct1]
  by simp

text \<open>
  C4. When the list of browser images holds a tag in which none of the patterns
  \<^verbatim>\<open>chrome<digits>\<close>, \<^verbatim>\<open>-ff<digits>\<close>, \<^verbatim>\<open>-edge<digits>\<close> matches, the browser
  workflow is not generated: \<^verbatim>\<open>formBrowserWorkflow\<close> throws the error whose message
  names the first such tag of the list, and \<^verbatim>\<open>writeConfigFile\<close> ends with this error
  and writes nothing. No such tag is in the skip list, so the filter never hides it.
\<close>

theorem unclassifiable_browser_tag_aborts:
  assumes "i \<in> set browserImages"
    and "execDigits ''chrome'' (tag i) = None"
    and "execDigits ''-ff'' (tag i) = None"
    and "execDigits ''-edge'' (tag i) = None"
  shows \<open>\<exists>pre j post. browserImages = pre @ j # post \<and>
           (\<forall>k\<in>set pre. \<not> noBrowser (tag k)) \<and> noBrowser (tag j) \<and>
           formBrowserWorkflow browserImages =
             Inl (Error (''Cannot find any browsers from image tag "'' @ tag j @ ''"'')) \<and>
           writeConfigFile os baseImages browserImages includedImages w =
             (Inl (Error (''Cannot find any browsers from image tag "'' @ tag j @ ''"'')), w)\<close>
proof -
  from assms have "\<exists>k\<in>set browserImages. noBrowser (tag k)"
    by (auto simp: noBrowser_def)
  then obtain pre j post where split: "browserImages = pre @ j # post"
    and j: "noBrowser (tag j)" and pre: "\<forall>k\<in>set pre. \<not> noBrowser (tag k)"
    using split_list_first_prop [of browserImages "\<lambda>k. noBrowser (tag k)"] by blast
  have kept: "filter browser_isIncluded browserImages =
      filter browser_isIncluded pre @ j # filter browser_isIncluded post"
    using split noBrowser_included [OF j] by simp
  have "\<forall>a\<in>set (filter browser_isIncluded pre). \<exists>y. browserJob a = Inr y"
    using pre browserJob_found by auto
  then have "browserYml browserImages =
      Inl (Error (''Cannot find any browsers from image tag \"'' @ tag j @ ''\"''))"
    unfolding browserYml_def kept
    by (rule mapThrowing_first_error) (rule browserJob_noBrowser [OF j])
  then have thrown: "formBrowserWorkflow browserImages =
      Inl (Error (''Cannot find any browsers from image tag \"'' @ tag j @ ''\"''))"
    by (simp add: formBrowserWorkflow_def)
  then have "writeConfigFile os baseImages browserImages includedImages w =
      (Inl (Error (''Cannot find any browsers from image tag \"'' @ tag j @ ''\"'')), w)"
    by (simp add: writeConfigFile_def)
  with split j pre thrown show ?thesis by (intro exI conjI)
qed

text \<open>
  The folder \<^verbatim>\<open>node14.0.0-brave1\<close> after a well-formed one: the error names it
  and the state is the one before the run.
\<close>

theorem unclassifiable_browser_tag_aborts_witness:
  \<open>execDigits ''chrome'' ''node14.0.0-brave1'' = None \<and>
   execDigits ''-ff'' ''node14.0.0-brave1'' = None \<and>
   execDigits ''-edge'' ''node14.0.0-brave1'' = None \<and>
   formBrowserWorkflow
     [\<lparr>name = ''browsers'', tag = ''node14.0.0-chrome84''\<rparr>,
      \<lparr>name = ''browsers'', tag = ''node14.0.0-brave1''\<rparr>] =
     Inl (Error ''Cannot find any browsers from image tag "node14.0.0-brave1"'') \<and>
   writeConfigFile Posix []
     [\<lparr>name = ''browsers'', tag = ''node14.0.0-chrome84''\<rparr>,
      \<lparr>name = ''browsers'', tag = ''node14.0.0-brave1''\<rparr>] []
     \<lparr>files = Map.empty, unwritable = {}, console = []\<rparr> =
     (Inl (Error ''Cannot find any browsers from image tag "node14.0.0-brave1"''),
      \<lparr>files = Map.empty, unwritable = {}, console = []\<rparr>)\<close>
proof -
  let ?a = "\<lparr>name = ''browsers'', tag = ''node14.0.0-chrome84''\<rparr>"
  let ?b = "\<lparr>name = ''browsers'', tag = ''node14.0.0-brave1''\<rparr>"
  let ?w = "\<lparr>files = Map.empty, unwritable = {}, console = []\<rparr>"
  have 1: "execDigits ''chrome'' ''node14.0.0-brave1'' = None" by code_simp
  have 2: "execDigits ''-ff'' ''node14.0.0-brave1'' = None" by code_simp
  have 3: "execDigits ''-edge'' ''node14.0.0-brave1'' = None" by code_simp
  have a: "\<not> noBrowser (tag ?a)" by code_simp
  have mem: "?b \<in> set [?a, ?b]" by simp
  have t1: "execDigits ''chrome'' (tag ?b) = None" using 1 by simp
  have t2: "execDigits ''-ff'' (tag ?b) = None" using 2 by simp
  have t3: "execDigits ''-edge'' (tag ?b) = None" using 3 by simp
  from unclassifiable_browser_tag_aborts [OF mem t1 t2 t3, of Posix "[]" "[]" ?w]
  obtain pre j post where split: "[?a, ?b] = pre @ j # post"
    and j: "noBrowser (tag j)"
    and res: "formBrowserWorkflow [?a, ?b] =
      Inl (Error (''Cannot find any browsers from image tag \"'' @ tag j @ ''\"''))"
    and run: "writeConfigFile Posix [] [?a, ?b] [] ?w =
      (Inl (Error (''Cannot find any browsers from image tag \"'' @ tag j @ ''\"'')), ?w)"
    by (elim exE conjE)
  have "j \<in> set (pre @ j # post)" by simp
  then have "j \<in> set [?a, ?b]" unfolding split .
  then have "j = ?a \<or> j = ?b" by simp
  moreover have "j \<noteq> ?a"
  proof
    assume "j = ?a"
    with j have "noBrowser (tag ?a)" by simp
    with a show False ..
  qed
  ultimately have jb: "j = ?b" by simp
  from res have r1: "formBrowserWorkflow [?a, ?b] =
      Inl (Error ''Cannot find any browsers from image tag \"node14.0.0-brave1\"'')"
    unfolding jb by simp
  from run have r2: "writeConfigFile Posix [] [?a, ?b] [] ?w =
      (Inl (Error ''Cannot find any browsers from image tag \"node14.0.0-brave1\"''), ?w)"
    unfolding jb by simp
  show ?thesis by (rule conjI [OF 1 conjI [OF 2 conjI [OF 3 conjI [OF r1 r2]]]])
qed

text \<open>
  C5, as the spec states it, fails on the code in one part. With an included tag
  that is no semantic version the run does end with an error and writes nothing, but
  the script neither catches the error nor sets an exit status: under a runtime that
  only warns about an unhandled rejection the process ends with status 0.
\<close>

theorem unhandled_rejection_exit_counterexample:
  "(\<exists>e. fst (main Posix [] [] [''included/latest'']
             \<lparr>files = Map.empty, unwritable = {}, console = []\<rparr>) = Inl e) \<and>
   exitStatus Warn
     (fst (main Posix [] [] [''included/latest'']
             \<lparr>files = Map.empty, unwritable = {}, console = []\<rparr>)) = 0"
proof -
  let ?w = "\<lparr>files = Map.empty, unwritable = {}, console = []\<rparr>"
  have 1: "''included/latest'' \<in> set [''included/latest'']" by simp
  have 2: "semver_parse (tag (splitImageFolderName ''included/latest'')) = None" by code_simp
  from main_invalid_included [OF 1 2, where w = ?w and os = Posix and basePaths = "[]"
      and browsersPaths = "[]"]
  obtain e w' where m: "main Posix [] [] [''included/latest''] ?w = (Inl e, w')"
    by (elim exE conjE)
  then have a: "fst (main Posix [] [] [''included/latest''] ?w) = Inl e" by simp
  then have b: "exitStatus Warn (fst (main Posix [] [] [''included/latest''] ?w)) = 0"
    by (simp add: exitStatus_def)
  from a have "\<exists>e. fst (main Posix [] [] [''included/latest''] ?w) = Inl e" ..
  then show ?thesis using b by (rule conjI)
qed

text \<open>
  C5, amended. When an included tag is no semantic version, \<^verbatim>\<open>writeConfigFile\<close>
  ends with an exception before \<^verbatim>\<open>fs.writeFileSync\<close> is reached and leaves the state
  as it was; the promise of the script's top-level function is rejected with this
  error and every file is as before the run. The exit status is not zero exactly when
  the runtime turns an unhandled rejection into an error (\<^verbatim>\<open>throw\<close>, \<^verbatim>\<open>strict\<close>,
  \<^verbatim>\<open>warn-with-error-code\<close>).
\<close>

theorem invalid_included_tag_aborts_without_writing:
  assumes "p \<in> set includedPaths"
    and "semver_parse (tag (splitImageFolderName p)) = None"
  shows "\<exists>e. writeConfigFile os (map splitImageFolderName basePaths)
            (map splitImageFolderName browsersPaths)
            (map splitImageFolderName includedPaths) w = (Inl e, w) \<and>
          (\<exists>w'. main os basePaths browsersPaths includedPaths w = (Inl e, w') \<and>
                files w' = files w) \<and>
          (exitStatus mode (Inl e) \<noteq> 0 \<longleftrightarrow>
             mode = Throw \<or> mode = Strict \<or> mode = WarnWithErrorCode)"
proof -
  from main_invalid_included [OF assms, where w = w and os = os and basePaths = basePaths
      and browsersPaths = browsersPaths]
  obtain e w' where
    a: "writeConfigFile os (map splitImageFolderName basePaths)
            (map splitImageFolderName browsersPaths)
            (map splitImageFolderName includedPaths) w = (Inl e, w)"
    and b: "main os basePaths browsersPaths includedPaths w = (Inl e, w')"
    and f: "files w' = files w"
    by (elim exE conjE)
  from b f have b': "\<exists>w'. main os basePaths browsersPaths includedPaths w = (Inl e, w') \<and>
                files w' = files w"
    by (intro exI conjI)
  have c: "exitStatus mode (Inl e) \<noteq> 0 \<longleftrightarrow>
             mode = Throw \<or> mode = Strict \<or> mode = WarnWithErrorCode"
    by (cases mode) (simp_all add: exitStatus_def)
  show ?thesis
    by (rule exI [where x = e]) (rule conjI [OF a conjI [OF b' c]])
qed

text \<open>
  The folder \<^verbatim>\<open>included/latest\<close>: the run fails, the previous \<^verbatim>\<open>circle.yml\<close>
  stays, and the status is 1 under \<^verbatim>\<open>throw\<close> and 0 under \<^verbatim>\<open>warn\<close>.
\<close>

theorem invalid_included_tag_aborts_without_writing_witness:
  "\<exists>e w'. main Posix [] [] [''included/6.0.0'', ''included/latest'']
       \<lparr>files = [''circle.yml'' \<mapsto> ''previous''], unwritable = {}, console = []\<rparr> =
       (Inl e, w') \<and>
     files w' = [''circle.yml'' \<mapsto> ''previous''] \<and>
     exitStatus Throw (Inl e) \<noteq> 0 \<and> exitStatus Warn (Inl e) = 0"
proof -
  let ?w = "\<lparr>files = [''circle.yml'' \<mapsto> ''previous''], unwritable = {}, console = []\<rparr>"
  have 1: "''included/latest'' \<in> set [''included/6.0.0'', ''included/latest'']" by simp
  have 2: "semver_parse (tag (splitImageFolderName ''included/latest'')) = None" by code_simp
  from invalid_included_tag_aborts_without_writing [OF 1 2, where w = ?w and os = Posix
      and basePaths = "[]" and browsersPaths = "[]" and mode = Throw]
  obtain e w' where m: "main Posix [] [] [''included/6.0.0'', ''included/latest''] ?w = (Inl e, w')"
    and f: "files w' = files ?w"
    and x: "exitStatus Throw (Inl e) \<noteq> 0 \<longleftrightarrow>
             Throw = Throw \<or> Throw = Strict \<or> Throw = WarnWithErrorCode"
    by (elim exE conjE)
  from f have f': "files w' = [''circle.yml'' \<mapsto> ''previous'']" by simp
  from x have x': "exitStatus Throw (Inl e) \<noteq> 0" by simp
  have y: "exitStatus Warn (Inl e) = 0" by (simp add: exitStatus_def)
  from m f' x' y show ?thesis by (intro exI conjI)
qed

text \<open>
  C6. The skip predicate of the included images holds of exactly the tags that are a
  semantic version strictly below \<^verbatim>\<open>6.0.0\<close>, that is, with a major number under 6
  or a pre-release of \<^verbatim>\<open>6.0.0\<close> itself. The tag \<^verbatim>\<open>5.4.0\<close> is skipped,
  \<^verbatim>\<open>6.0.0\<close> and \<^verbatim>\<open>7.0.0\<close> are not, and for these three folders the workflow
  holds the job blocks of \<^verbatim>\<open>6.0.0\<close> and \<^verbatim>\<open>7.0.0\<close>, spelled out, and no other.
\<close>

theorem included_skip_threshold:
  \<open>(\<forall>t. included_isSkipped t = Inr True \<longleftrightarrow>
      (\<exists>v. semver_parse t = Some v \<and>
           (major v < 6 \<or> (major v = 6 \<and> minor v = 0 \<and> patch v = 0 \<and> prerelease v \<noteq> [])))) \<and>
   included_isSkipped ''5.4.0'' = Inr True \<and>
   included_isSkipped ''6.0.0'' = Inr False \<and>
   included_isSkipped ''7.0.0'' = Inr False \<and>
   includedYml [\<lparr>name = ''included'', tag = ''5.4.0''\<rparr>, \<lparr>name = ''included'', tag = ''6.0.0''\<rparr>,
                \<lparr>name = ''included'', tag = ''7.0.0''\<rparr>] =
     Inr [''      - build-included-image:\<newline>'' @
          ''          name: "included 6.0.0"\<newline>'' @
          ''          dockerTag: "6.0.0"\<newline>'',
          ''      - build-included-image:\<newline>'' @
          ''          name: "included 7.0.0"\<newline>'' @
          ''          dockerTag: "7.0.0"\<newline>''] \<and>
   formIncludedWorkflow
     [\<lparr>name = ''included'', tag = ''5.4.0''\<rparr>, \<lparr>name = ''included'', tag = ''6.0.0''\<rparr>,
      \<lparr>name = ''included'', tag = ''7.0.0''\<rparr>] =
     Inr (''  build-included-images:\<newline>'' @
          ''    jobs:\<newline>'' @
          ''      - build-included-image:\<newline>'' @
          ''          name: "included 6.0.0"\<newline>'' @
          ''          dockerTag: "6.0.0"\<newline>'' @
          ''      - build-included-image:\<newline>'' @
          ''          name: "included 7.0.0"\<newline>'' @
          ''          dockerTag: "7.0.0"\<newline>'')\<close>
proof -
  have a: "included_isSkipped ''5.4.0'' = Inr True" by code_simp
  have b: "included_isSkipped ''6.0.0'' = Inr False" by code_simp
  have c: "included_isSkipped ''7.0.0'' = Inr False" by code_simp
  have d: \<open>includedYml [\<lparr>name = ''included'', tag = ''5.4.0''\<rparr>, \<lparr>name = ''included'', tag = ''6.0.0''\<rparr>,
                \<lparr>name = ''included'', tag = ''7.0.0''\<rparr>] =
     Inr [''      - build-included-image:\<newline>'' @
          ''          name: "included 6.0.0"\<newline>'' @
          ''          dockerTag: "6.0.0"\<newline>'',
          ''      - build-included-image:\<newline>'' @
          ''          name: "included 7.0.0"\<newline>'' @
          ''          dockerTag: "7.0.0"\<newline>'']\<close>
    by (simp add: includedYml_def included_isIncluded_def a b c includedJob_text)
  have f: \<open>formIncludedWorkflow
     [\<lparr>name = ''included'', tag = ''5.4.0''\<rparr>, \<lparr>name = ''included'', tag = ''6.0.0''\<rparr>,
      \<lparr>name = ''included'', tag = ''7.0.0''\<rparr>] =
     Inr (''  build-included-images:\<newline>'' @
          ''    jobs:\<newline>'' @
          ''      - build-included-image:\<newline>'' @
          ''          name: "included 6.0.0"\<newline>'' @
          ''          dockerTag: "6.0.0"\<newline>'' @
          ''      - build-included-image:\<newline>'' @
          ''          name: "included 7.0.0"\<newline>'' @
          ''          dockerTag: "7.0.0"\<newline>'')\<close>
    unfolding formIncludedWorkflow_def d by (simp add: included_workflowName_def)
  have e: "included_isSkipped t = Inr True \<longleftrightarrow>
      (\<exists>v. semver_parse t = Some v \<and>
           (major v < 6 \<or> (major v = 6 \<and> minor v = 0 \<and> patch v = 0 \<and> prerelease v \<noteq> [])))" for t
    by (cases "semver_parse t") (simp_all add: included_isSkipped_cases)
  have e': "\<forall>t. included_isSkipped t = Inr True \<longleftrightarrow>
      (\<exists>v. semver_parse t = Some v \<and>
           (major v < 6 \<or> (major v = 6 \<and> minor v = 0 \<and> patch v = 0 \<and> prerelease v \<noteq> [])))"
    by (rule allI) (rule e)
  show ?thesis
    by (rule conjI [OF e' conjI [OF a conjI [OF b conjI [OF c conjI [OF d f]]]]])
qed

text \<open>
  At \<^verbatim>\<open>5.4.0\<close> the tag parses to a version below the threshold, and the workflow
  of the three folders is the text with two job blocks.
\<close>

theorem included_skip_threshold_witness:
  \<open>(\<exists>v. semver_parse ''5.4.0'' = Some v \<and>
       (major v < 6 \<or> (major v = 6 \<and> minor v = 0 \<and> patch v = 0 \<and> prerelease v \<noteq> []))) \<and>
   formIncludedWorkflow
     [\<lparr>name = ''included'', tag = ''5.4.0''\<rparr>, \<lparr>name = ''included'', tag = ''6.0.0''\<rparr>,
      \<lparr>name = ''included'', tag = ''7.0.0''\<rparr>] =
     Inr (''  build-included-images:\<newline>'' @
          ''    jobs:\<newline>'' @
          ''      - build-included-image:\<newline>'' @
          ''          name: "included 6.0.0"\<newline>'' @
          ''          dockerTag: "6.0.0"\<newline>'' @
          ''      - build-included-image:\<newline>'' @
          ''          name: "included 7.0.0"\<newline>'' @
          ''          dockerTag: "7.0.0"\<newline>'')\<close>
proof -
  note all = included_skip_threshold [THEN conjunct1, THEN spec, of "''5.4.0''"]
  note s = included_skip_threshold [THEN conjunct2, THEN conjunct1]
  note f = included_skip_threshold
    [THEN conjunct2, THEN conjunct2, THEN conjunct2, THEN conjunct2, THEN conjunct2]
  from all s have "\<exists>v. semver_parse ''5.4.0'' = Some v \<and>
       (major v < 6 \<or> (major v = 6 \<and> minor v = 0 \<and> patch v = 0 \<and> prerelease v \<noteq> []))"
    by (rule iffD1)
  then show ?thesis using f by (rule conjI)
qed



text \<open>
  C8. Whenever a document is generated, the text written to \<^verbatim>\<open>circle.yml\<close> is
  the trimmed preamble, the base workflow, the browser workflow and the included
  workflow, in this order, with the line terminator of the platform between two
  consecutive parts.
\<close>

theorem document_is_ordered_concatenation:
  assumes "writeConfigFile os baseImages browserImages includedImages w = (Inr (), w')"
  shows "\<exists>browsers included.
    formBrowserWorkflow browserImages = Inr browsers \<and>
    formIncludedWorkflow includedImages = Inr included \<and>
    files w' ''circle.yml'' =
      Some (trim preamble @ EOL os @ formBaseWorkflow baseImages @ EOL os @ browsers @ EOL os @
            included)"
proof -
  from writeConfigFile_Inr_D [OF assms] obtain browsers included where
    br: "formBrowserWorkflow browserImages = Inr browsers" and
    inc: "formIncludedWorkflow includedImages = Inr included" and
    w': "w' = console_log (Text ''generated circle.yml'')
       (w\<lparr>files := (files w)(''circle.yml'' \<mapsto>
          trim preamble @ EOL os @ formBaseWorkflow baseImages @ EOL os @ browsers @ EOL os @
          included)\<rparr>)"
    by (elim exE conjE)
  have "files w' ''circle.yml'' =
      Some (trim preamble @ EOL os @ formBaseWorkflow baseImages @ EOL os @ browsers @ EOL os @
            included)"
    unfolding w' by (simp add: console_log_def)
  with br inc show ?thesis by (intro exI conjI)
qed

text \<open>
  A run on Windows with one included folder.
\<close>

theorem document_is_ordered_concatenation_witness:
  \<open>\<exists>w'. writeConfigFile Windows [] []
       [\<lparr>name = ''included'', tag = ''7.0.0''\<rparr>]
       \<lparr>files = Map.empty, unwritable = {}, console = []\<rparr> = (Inr (), w') \<and>
     files w' ''circle.yml'' =
       Some (trim preamble @ EOL Windows @ formBaseWorkflow [] @ EOL Windows @
             browser_workflowName @ EOL Windows @
             included_workflowName @ includedJob \<lparr>name = ''included'', tag = ''7.0.0''\<rparr>)\<close>
proof -
  let ?w = "\<lparr>files = Map.empty, unwritable = {}, console = []\<rparr>"
  have br: "formBrowserWorkflow [] = Inr browser_workflowName"
    by (simp add: formBrowserWorkflow_def browserYml_def)
  have s7: "included_isSkipped ''7.0.0'' = Inr False" by code_simp
  have inc: "formIncludedWorkflow [\<lparr>name = ''included'', tag = ''7.0.0''\<rparr>] =
      Inr (included_workflowName @ includedJob \<lparr>name = ''included'', tag = ''7.0.0''\<rparr>)"
    by (simp add: formIncludedWorkflow_def includedYml_def included_isIncluded_def s7)
  have ok: "''circle.yml'' \<notin> unwritable ?w" by simp
  note run = writeConfigFile_success [OF br inc ok, of Windows "[]"]
  from document_is_ordered_concatenation [OF run] obtain browsers included where
    "formBrowserWorkflow [] = Inr browsers"
    "formIncludedWorkflow [\<lparr>name = ''included'', tag = ''7.0.0''\<rparr>] = Inr included"
    and doc: "files (console_log (Text ''generated circle.yml'')
       (?w\<lparr>files := (files ?w)(''circle.yml'' \<mapsto>
          trim preamble @ EOL Windows @ formBaseWorkflow [] @ EOL Windows @ browser_workflowName @
          EOL Windows @
          included_workflowName @ includedJob \<lparr>name = ''included'', tag = ''7.0.0''\<rparr>)\<rparr>))
        ''circle.yml'' =
       Some (trim preamble @ EOL Windows @ formBaseWorkflow [] @ EOL Windows @ browsers @
             EOL Windows @ included)"
    by (elim exE conjE)
  with br inc have "browsers = browser_workflowName"
    "included = included_workflowName @ includedJob \<lparr>name = ''included'', tag = ''7.0.0''\<rparr>"
    by simp_all
  with doc run show ?thesis by (intro exI conjI) simp_all
qed

text \<open>
  C9. Generation is deterministic. Two runs on the same platform and the same three
  lists that both write the file write the same text, whatever the files and the
  console held before each run; and a further run on the state the first one left
  writes the file again and leaves every file as it was.
\<close>

theorem generation_is_deterministic:
  assumes "writeConfigFile os baseImages browserImages includedImages w1 = (Inr (), w1')"
    and "writeConfigFile os baseImages browserImages includedImages w2 = (Inr (), w2')"
  shows "files w1' ''circle.yml'' = files w2' ''circle.yml'' \<and>
    (\<exists>w1''. writeConfigFile os baseImages browserImages includedImages w1' = (Inr (), w1'') \<and>
            files w1'' = files w1')"
proof -
  from writeConfigFile_Inr_D [OF assms(1)] obtain b1 i1 where
    br1: "formBrowserWorkflow browserImages = Inr b1" and
    inc1: "formIncludedWorkflow includedImages = Inr i1" and
    ok1: "''circle.yml'' \<notin> unwritable w1" and
    w1': "w1' = console_log (Text ''generated circle.yml'')
       (w1\<lparr>files := (files w1)(''circle.yml'' \<mapsto>
          trim preamble @ EOL os @ formBaseWorkflow baseImages @ EOL os @ b1 @ EOL os @ i1)\<rparr>)"
    by (elim exE conjE)
  from writeConfigFile_Inr_D [OF assms(2)] obtain b2 i2 where
    br2: "formBrowserWorkflow browserImages = Inr b2" and
    inc2: "formIncludedWorkflow includedImages = Inr i2" and
    w2': "w2' = console_log (Text ''generated circle.yml'')
       (w2\<lparr>files := (files w2)(''circle.yml'' \<mapsto>
          trim preamble @ EOL os @ formBaseWorkflow baseImages @ EOL os @ b2 @ EOL os @ i2)\<rparr>)"
    by (elim exE conjE)
  from br1 br2 have b: "b2 = b1" by simp
  from inc1 inc2 have i: "i2 = i1" by simp
  have same: "files w1' ''circle.yml'' = files w2' ''circle.yml''"
    unfolding w1' w2' b i by (simp add: console_log_def)
  have ok1': "''circle.yml'' \<notin> unwritable w1'"
    unfolding w1' using ok1 by (simp add: console_log_def)
  have again: "writeConfigFile os baseImages browserImages includedImages w1' =
    (Inr (), console_log (Text ''generated circle.yml'')
       (w1'\<lparr>files := (files w1')(''circle.yml'' \<mapsto>
          trim preamble @ EOL os @ formBaseWorkflow baseImages @ EOL os @ b1 @ EOL os @ i1)\<rparr>))"
    by (rule writeConfigFile_success [OF br1 inc1 ok1'])
  have "files (console_log (Text ''generated circle.yml'')
       (w1'\<lparr>files := (files w1')(''circle.yml'' \<mapsto>
          trim preamble @ EOL os @ formBaseWorkflow baseImages @ EOL os @ b1 @ EOL os @ i1)\<rparr>)) =
       files w1'"
    unfolding w1' by (simp add: console_log_def)
  with again same show ?thesis by (intro conjI exI)
qed

text \<open>
  Two runs of the example, one from an empty state and one over an older
  \<^verbatim>\<open>circle.yml\<close>.
\<close>

theorem generation_is_deterministic_witness:
  \<open>\<exists>w1' w2'.
     writeConfigFile Posix
       [\<lparr>name = ''base'', tag = ''10.0.0''\<rparr>, \<lparr>name = ''base'', tag = ''14.7.0''\<rparr>]
       [\<lparr>name = ''browsers'', tag = ''chrome69''\<rparr>,
        \<lparr>name = ''browsers'', tag = ''node14.7.0-chrome84''\<rparr>]
       [\<lparr>name = ''included'', tag = ''5.4.0''\<rparr>, \<lparr>name = ''included'', tag = ''6.0.0''\<rparr>]
       \<lparr>files = Map.empty, unwritable = {}, console = []\<rparr> = (Inr (), w1') \<and>
     writeConfigFile Posix
       [\<lparr>name = ''base'', tag = ''10.0.0''\<rparr>, \<lparr>name = ''base'', tag = ''14.7.0''\<rparr>]
       [\<lparr>name = ''browsers'', tag = ''chrome69''\<rparr>,
        \<lparr>name = ''browsers'', tag = ''node14.7.0-chrome84''\<rparr>]
       [\<lparr>name = ''included'', tag = ''5.4.0''\<rparr>, \<lparr>name = ''included'', tag = ''6.0.0''\<rparr>]
       \<lparr>files = [''circle.yml'' \<mapsto> ''previous''], unwritable = {}, console = [Text ''earlier'']\<rparr> =
       (Inr (), w2') \<and>
     files w1' ''circle.yml'' = files w2' ''circle.yml''\<close>
proof -
  let ?w1 = "\<lparr>files = Map.empty, unwritable = {}, console = []\<rparr>"
  let ?w2 = "\<lparr>files = [''circle.yml'' \<mapsto> ''previous''], unwritable = {}, console = [Text ''earlier'']\<rparr>"
  have ok1: "''circle.yml'' \<notin> unwritable ?w1" by simp
  have ok2: "''circle.yml'' \<notin> unwritable ?w2" by simp
  note run1 = example_run [OF ok1]
  note run2 = example_run [OF ok2]
  from generation_is_deterministic [OF run1 run2] run1 run2
  show ?thesis by (intro exI conjI) (elim conjE; assumption)+
qed

text \<open>
  C10. A browser image whose tag is in the browser skip list has no effect on
  \<^verbatim>\<open>formBrowserWorkflow\<close>: the result is the one of the list without it, so the tag
  gets no job block and raises no error, whatever the searches would find in it. The
  filter runs before the classification.
\<close>

theorem skipped_browser_tag_is_dropped_before_classification:
  assumes "tag i \<in> set browser_skipImages"
  shows "formBrowserWorkflow (pre @ i # post) = formBrowserWorkflow (pre @ post)"
  using assms
  by (simp add: formBrowserWorkflow_def browserYml_def browser_isIncluded_def
        browser_isSkipped_def)

text \<open>
  The skipped folder \<^verbatim>\<open>chrome69\<close> alone gives the workflow of no folder.
\<close>

theorem skipped_browser_tag_is_dropped_before_classification_witness:
  "formBrowserWorkflow ([] @ \<lparr>name = ''browsers'', tag = ''chrome69''\<rparr> # []) =
   formBrowserWorkflow ([] @ [])"
proof -
  have "tag \<lparr>name = ''browsers'', tag = ''chrome69''\<rparr> \<in> set browser_skipImages"
    by (simp add: browser_skipImages_def)
  then show ?thesis
    by (rule skipped_browser_tag_is_dropped_before_classification)
qed

end
